theory Spec2Isabelle
  imports Complex_Main "HOL-Library.Multiset"
begin

text \<open>
  A shallow embedding of the extraction, validation and statistics pipeline of the
  real-estate analytics repository: the line extractor and its statistics block, the
  assertion-style validator, the trend and prediction helpers of the forecast engine and
  the PDF orchestrator, each translated from its TypeScript source, followed by the
  properties proved of them.
\<close>

section \<open>JavaScript numbers\<close>

text \<open>
  A JavaScript \<^verbatim>\<open>number\<close> is an IEEE-754 double. A finite number is the real
  it denotes, and the three special values stand apart. Every arithmetic operation
  rounds its exact result to the nearest double, ties to the even significand, with the
  subnormal numbers below \<open>2\<^sup>-\<^sup>1\<^sup>0\<^sup>2\<^sup>2\<close> and overflow to an infinity beyond the largest
  double. The two zeros are one number, and a quotient by zero has the sign of its
  dividend.
\<close>

datatype jsnum = Num real | PosInf | NegInf | NaN

text \<open>
  \<open>binade x\<close> is the exponent \<open>e\<close> with \<open>2\<^sup>e \<le> |x| < 2\<^sup>e\<^sup>+\<^sup>1\<close>; \<open>ulp x\<close> is the
  distance of neighbouring doubles there (53 significant bits, the exponent not below
  \<open>-1022\<close>); \<open>rne\<close> rounds to the nearest integer, a tie to the even one; \<open>fl\<close>
  rounds a real to the grid of doubles around it, and \<open>rnd\<close> is the result of an
  operation whose exact value is the given real.
\<close>

definition pow2 :: "int \<Rightarrow> real" where
  "pow2 k = 2 powr real_of_int k"

definition binade :: "real \<Rightarrow> int" where
  "binade x = \<lfloor>log 2 \<bar>x\<bar>\<rfloor>"

definition ulp :: "real \<Rightarrow> real" where
  "ulp x = pow2 (max (binade x) (- 1022) - 52)"

definition rne :: "real \<Rightarrow> int" where
  "rne y =
     (if y - of_int \<lfloor>y\<rfloor> < 1 / 2 then \<lfloor>y\<rfloor>
      else if 1 / 2 < y - of_int \<lfloor>y\<rfloor> then \<lfloor>y\<rfloor> + 1
      else if even \<lfloor>y\<rfloor> then \<lfloor>y\<rfloor> else \<lfloor>y\<rfloor> + 1)"

definition fl :: "real \<Rightarrow> real" where
  "fl x = (if x = 0 then 0 else sgn x * (of_int (rne (\<bar>x\<bar> / ulp x)) * ulp x))"

text \<open>\<^verbatim>\<open>Number.MAX_VALUE\<close>\<close>

definition MAX_VALUE :: real where
  "MAX_VALUE = (2 ^ 53 - 1) * 2 ^ 971"

definition rnd :: "real \<Rightarrow> jsnum" where
  "rnd x =
     (if MAX_VALUE < fl x then PosInf else if fl x < - MAX_VALUE then NegInf else Num (fl x))"

text \<open>
  The number that a decimal literal of the source denotes. Literals that are doubles
  themselves (integers, \<open>0.5\<close>, \<open>0.25\<close>) are written with \<open>Num\<close>.
\<close>

definition dbl :: "real \<Rightarrow> jsnum" where
  "dbl r = rnd r"

text \<open>The reals that are doubles, up to the bound on the exponent from above.\<close>

definition representable :: "real \<Rightarrow> bool" where
  "representable z = (\<exists>m k. z = of_int m * pow2 k \<and> \<bar>m\<bar> < 2 ^ 53 \<and> - 1074 \<le> k)"

fun js_neg :: "jsnum \<Rightarrow> jsnum" where
  "js_neg (Num x) = Num (- x)"
| "js_neg PosInf = NegInf"
| "js_neg NegInf = PosInf"
| "js_neg NaN = NaN"

fun js_add :: "jsnum \<Rightarrow> jsnum \<Rightarrow> jsnum" where
  "js_add (Num x) (Num y) = rnd (x + y)"
| "js_add NaN _ = NaN"
| "js_add _ NaN = NaN"
| "js_add PosInf NegInf = NaN"
| "js_add NegInf PosInf = NaN"
| "js_add PosInf _ = PosInf"
| "js_add NegInf _ = NegInf"
| "js_add _ PosInf = PosInf"
| "js_add _ NegInf = NegInf"

definition js_sub :: "jsnum \<Rightarrow> jsnum \<Rightarrow> jsnum" where
  "js_sub a b = js_add a (js_neg b)"

text \<open>The sign of a number that is not NaN: \<open>-1\<close>, \<open>0\<close> or \<open>1\<close>.\<close>

fun js_sign :: "jsnum \<Rightarrow> int" where
  "js_sign (Num x) = (if x < 0 then - 1 else if x = 0 then 0 else 1)"
| "js_sign PosInf = 1"
| "js_sign NegInf = - 1"
| "js_sign NaN = 0"

definition signed_inf :: "int \<Rightarrow> jsnum" where
  "signed_inf s = (if s < 0 then NegInf else PosInf)"

fun js_mul :: "jsnum \<Rightarrow> jsnum \<Rightarrow> jsnum" where
  "js_mul (Num x) (Num y) = rnd (x * y)"
| "js_mul NaN _ = NaN"
| "js_mul _ NaN = NaN"
| "js_mul a b =
     (if js_sign a = 0 \<or> js_sign b = 0 then NaN else signed_inf (js_sign a * js_sign b))"

fun js_div :: "jsnum \<Rightarrow> jsnum \<Rightarrow> jsnum" where
  "js_div NaN _ = NaN"
| "js_div _ NaN = NaN"
| "js_div (Num x) (Num y) =
     (if y = 0 then (if x = 0 then NaN else signed_inf (js_sign (Num x))) else rnd (x / y))"
| "js_div (Num x) _ = Num 0"
| "js_div a (Num y) = signed_inf (js_sign a * (if y < 0 then - 1 else 1))"
| "js_div _ _ = NaN"

fun js_abs :: "jsnum \<Rightarrow> jsnum" where
  "js_abs (Num x) = Num \<bar>x\<bar>"
| "js_abs NaN = NaN"
| "js_abs _ = PosInf"

fun js_sqrt :: "jsnum \<Rightarrow> jsnum" where
  "js_sqrt (Num x) = (if x < 0 then NaN else rnd (sqrt x))"
| "js_sqrt PosInf = PosInf"
| "js_sqrt _ = NaN"

text \<open>\<^verbatim>\<open>Math.round\<close> rounds to the nearest integer, halves upwards.\<close>

fun js_round :: "jsnum \<Rightarrow> jsnum" where
  "js_round (Num x) = Num (of_int \<lfloor>x + 1 / 2\<rfloor>)"
| "js_round a = a"

fun js_floor :: "jsnum \<Rightarrow> jsnum" where
  "js_floor (Num x) = Num (of_int \<lfloor>x\<rfloor>)"
| "js_floor a = a"

fun js_lt :: "jsnum \<Rightarrow> jsnum \<Rightarrow> bool" where
  "js_lt NaN _ = False"
| "js_lt _ NaN = False"
| "js_lt (Num x) (Num y) = (x < y)"
| "js_lt NegInf b = (b \<noteq> NegInf)"
| "js_lt a PosInf = (a \<noteq> PosInf)"
| "js_lt _ _ = False"

definition js_gt :: "jsnum \<Rightarrow> jsnum \<Rightarrow> bool" where
  "js_gt a b = js_lt b a"

definition js_le :: "jsnum \<Rightarrow> jsnum \<Rightarrow> bool" where
  "js_le a b = (a \<noteq> NaN \<and> b \<noteq> NaN \<and> \<not> js_lt b a)"

definition js_ge :: "jsnum \<Rightarrow> jsnum \<Rightarrow> bool" where
  "js_ge a b = js_le b a"

definition js_max :: "jsnum \<Rightarrow> jsnum \<Rightarrow> jsnum" where
  "js_max a b = (if a = NaN \<or> b = NaN then NaN else if js_lt a b then b else a)"

text \<open>Truthiness of a number: \<open>0\<close> and NaN are falsy.\<close>

fun truthy :: "jsnum \<Rightarrow> bool" where
  "truthy (Num x) = (x \<noteq> 0)"
| "truthy NaN = False"
| "truthy _ = True"

text \<open>\<^verbatim>\<open>a || b\<close> on numbers.\<close>

definition js_or :: "jsnum \<Rightarrow> jsnum \<Rightarrow> jsnum" where
  "js_or a b = (if truthy a then a else b)"

text \<open>
  A property that may be \<^verbatim>\<open>undefined\<close> is an option. In arithmetic and in
  comparisons \<^verbatim>\<open>undefined\<close> converts to NaN; under \<^verbatim>\<open>||\<close> it is falsy.
\<close>

fun to_number :: "jsnum option \<Rightarrow> jsnum" where
  "to_number None = NaN"
| "to_number (Some v) = v"

fun opt_truthy :: "jsnum option \<Rightarrow> bool" where
  "opt_truthy None = False"
| "opt_truthy (Some v) = truthy v"

definition opt_or :: "jsnum option \<Rightarrow> jsnum \<Rightarrow> jsnum" where
  "opt_or a b = (if opt_truthy a then to_number a else b)"

definition js_len :: "'a list \<Rightarrow> jsnum" where
  "js_len xs = Num (of_nat (length xs))"

section \<open>Listings\<close>

text \<open>
  The extractor builds a \<^verbatim>\<open>Partial<Property>\<close> and casts it to
  \<^verbatim>\<open>Property\<close>, so at run time every field may be absent.
\<close>

record Property =
  mlsNumber :: "string option"
  address :: "string option"
  city :: "string option"
  listPrice :: "jsnum option"
  bedrooms :: "jsnum option"
  bathrooms :: "string option"
  sqft :: "jsnum option"
  yearBuilt :: "jsnum option"
  garage :: "string option"
  pool :: "bool option"
  acres :: "jsnum option"
  pricePerSqft :: "jsnum option"
  soldPrice :: "jsnum option"
  soldDate :: "string option"
  daysOnMarket :: "jsnum option"
  saleToListRatio :: "jsnum option"

record Statistics =
  averageDaysOnMarket :: jsnum
  medianDaysOnMarket :: jsnum
  totalActiveListings :: jsnum
  totalClosedSales :: jsnum
  averagePrice :: jsnum
  medianPrice :: jsnum
  pricePerSquareFoot :: jsnum
  inventoryLevel :: jsnum
  daysOfInventory :: jsnum
  absorptionRate :: jsnum
  newListings :: jsnum
  closedListingsCount :: jsnum
  pendingListings :: jsnum
  canceledListings :: jsnum
  averageListPrice :: jsnum
  medianListPrice :: jsnum
  averageSoldPrice :: jsnum
  medianSoldPrice :: jsnum
  listToSoldRatio :: jsnum
  monthsOfSupply :: jsnum

section \<open>Statistics synthesizer\<close>

text \<open>\<^verbatim>\<open>prices.reduce((a, b) => a + b, 0)\<close>\<close>

definition js_sum :: "jsnum list \<Rightarrow> jsnum" where
  "js_sum xs = foldl js_add (Num 0) xs"

definition calculateAverage :: "jsnum list \<Rightarrow> jsnum" where
  "calculateAverage prices =
     (if truthy (js_len prices) then js_round (js_div (js_sum prices) (js_len prices))
      else Num 0)"

text \<open>
  \<^verbatim>\<open>[...prices].sort((a, b) => a - b)\<close>: an insertion sort under the source's
  comparator. On lists of finite numbers, the only ones the synthesizer sorts, every
  sorting algorithm returns this list.
\<close>

fun js_insort :: "jsnum \<Rightarrow> jsnum list \<Rightarrow> jsnum list" where
  "js_insort x [] = [x]"
| "js_insort x (y # ys) =
     (if js_gt (js_sub x y) (Num 0) then y # js_insort x ys else x # y # ys)"

definition js_sort :: "jsnum list \<Rightarrow> jsnum list" where
  "js_sort xs = foldr js_insort xs []"

definition calculateMedian :: "jsnum list \<Rightarrow> jsnum" where
  "calculateMedian prices =
     (if \<not> truthy (js_len prices) then Num 0
      else let sorted = js_sort prices;
               mid = length sorted div 2
           in if length sorted mod 2 \<noteq> 0 then sorted ! mid
              else js_round (js_div (js_add (sorted ! (mid - 1)) (sorted ! mid)) (Num 2)))"

definition activeListPrices :: "Property list \<Rightarrow> jsnum list" where
  "activeListPrices activeListings =
     filter (\<lambda>p. js_gt p (Num 0)) (map (\<lambda>p. to_number (listPrice p)) activeListings)"

definition soldPrices :: "Property list \<Rightarrow> jsnum list" where
  "soldPrices closedListings =
     filter (\<lambda>p. js_gt p (Num 0)) (map (\<lambda>p. opt_or (soldPrice p) (Num 0)) closedListings)"

text \<open>The divisor of the \<^verbatim>\<open>listToSoldRatio\<close> division.\<close>

definition listToSoldRatio_divisor :: "Property list \<Rightarrow> jsnum" where
  "listToSoldRatio_divisor activeListings = calculateAverage (activeListPrices activeListings)"

definition synthesize :: "Property list \<Rightarrow> Property list \<Rightarrow> Statistics" where
  "synthesize activeListings closedListings =
     \<lparr> averageDaysOnMarket =
         calculateAverage (map (\<lambda>p. opt_or (daysOnMarket p) (Num 0)) closedListings),
       medianDaysOnMarket =
         calculateMedian (map (\<lambda>p. opt_or (daysOnMarket p) (Num 0)) closedListings),
       totalActiveListings = js_len activeListings,
       totalClosedSales = js_len closedListings,
       averagePrice =
         calculateAverage (activeListPrices activeListings @ soldPrices closedListings),
       medianPrice =
         calculateMedian (activeListPrices activeListings @ soldPrices closedListings),
       pricePerSquareFoot =
         calculateAverage
           (map (\<lambda>p. to_number (pricePerSqft p)) (activeListings @ closedListings)),
       inventoryLevel = js_len activeListings,
       daysOfInventory = Num 90,
       absorptionRate = js_div (js_len closedListings) (js_or (js_len activeListings) (Num 1)),
       newListings = js_round (js_mul (js_len activeListings) (Num (1 / 4))),
       closedListingsCount = js_len closedListings,
       pendingListings = js_round (js_mul (js_len activeListings) (dbl (1 / 10))),
       canceledListings = js_round (js_mul (js_len activeListings) (dbl (5 / 100))),
       averageListPrice = calculateAverage (activeListPrices activeListings),
       medianListPrice = calculateMedian (activeListPrices activeListings),
       averageSoldPrice = calculateAverage (soldPrices closedListings),
       medianSoldPrice = calculateMedian (soldPrices closedListings),
       listToSoldRatio =
         (if truthy (js_len (soldPrices closedListings))
          then js_div (calculateAverage (soldPrices closedListings))
                 (listToSoldRatio_divisor activeListings)
          else Num 1),
       monthsOfSupply =
         js_div (js_len activeListings)
           (js_or (js_div (js_len closedListings) (Num 3)) (Num 1)) \<rparr>"

text \<open>A listing that carries only the fields given.\<close>

definition blank_property :: Property where
  "blank_property =
     \<lparr> mlsNumber = None, address = None, city = None, listPrice = None, bedrooms = None,
       bathrooms = None, sqft = None, yearBuilt = None, garage = None, pool = None,
       acres = None, pricePerSqft = None, soldPrice = None, soldDate = None,
       daysOnMarket = None, saleToListRatio = None \<rparr>"

definition scenario_active :: Property where
  "scenario_active =
     blank_property \<lparr> listPrice := Some (Num 500000), sqft := Some (Num 2000),
                      pricePerSqft := Some (Num 250) \<rparr>"

section \<open>Strings\<close>

text \<open>
  Text is modelled as a list of code units below 256. The white space of \<^verbatim>\<open>\s\<close> and
  of \<^verbatim>\<open>trim\<close> in that range is tab, line feed, vertical tab, form feed, carriage
  return, space and the no-break space.
\<close>

definition is_digit :: "char \<Rightarrow> bool" where
  "is_digit c = (48 \<le> (of_char c :: nat) \<and> (of_char c :: nat) \<le> 57)"

definition is_space :: "char \<Rightarrow> bool" where
  "is_space c = ((of_char c :: nat) \<in> {9, 10, 11, 12, 13, 32, 160})"

definition trim :: "string \<Rightarrow> string" where
  "trim s = rev (dropWhile is_space (rev (dropWhile is_space s)))"

text \<open>
  Lower-casing of the ASCII letters. Below 256 a character equals an ASCII letter under
  the \<^verbatim>\<open>i\<close> flag, or after \<^verbatim>\<open>toLowerCase\<close>, exactly when it does after
  this function.
\<close>

definition lower :: "char \<Rightarrow> char" where
  "lower c = (if 65 \<le> (of_char c :: nat) \<and> (of_char c :: nat) \<le> 90
              then char_of ((of_char c :: nat) + 32) else c)"

text \<open>Comparison of strings by code units, as \<^verbatim>\<open><=\<close> on two strings does.\<close>

fun str_lt :: "string \<Rightarrow> string \<Rightarrow> bool" where
  "str_lt [] [] = False"
| "str_lt [] (y # ys) = True"
| "str_lt (x # xs) [] = False"
| "str_lt (x # xs) (y # ys) =
     ((of_char x :: nat) < of_char y \<or> (x = y \<and> str_lt xs ys))"

definition str_le :: "string \<Rightarrow> string \<Rightarrow> bool" where
  "str_le a b = (a = b \<or> str_lt a b)"

text \<open>The decimal numeral of an array index, as a template literal prints it.\<close>

definition digit_char :: "nat \<Rightarrow> char" where
  "digit_char d = ''0123456789'' ! d"

function show_nat :: "nat \<Rightarrow> string" where
  "show_nat n = (if n < 10 then [digit_char n] else show_nat (n div 10) @ [digit_char (n mod 10)])"
  by pat_completeness auto
termination
  by (relation "measure id") auto

section \<open>Regular expressions\<close>

text \<open>
  A matcher returns every way its pattern can match a prefix of the input, as pairs of
  the matched text and the rest, in the order in which a backtracking engine tries them
  (greedy quantifiers: longest first; alternatives: left to right). The first entry of a
  sequence of matchers is therefore the match that \<^verbatim>\<open>String.prototype.match\<close>
  reports at that position.
\<close>

type_synonym matcher = "string \<Rightarrow> (string \<times> string) list"

definition one :: "(char \<Rightarrow> bool) \<Rightarrow> matcher" where
  "one c s = (case s of [] \<Rightarrow> [] | x # xs \<Rightarrow> if c x then [([x], xs)] else [])"

fun star :: "(char \<Rightarrow> bool) \<Rightarrow> matcher" where
  "star c [] = [([], [])]"
| "star c (x # xs) =
     (if c x then map (\<lambda>(m, r). (x # m, r)) (star c xs) @ [([], x # xs)]
      else [([], x # xs)])"

definition plus :: "(char \<Rightarrow> bool) \<Rightarrow> matcher" where
  "plus c s = filter (\<lambda>(m, r). m \<noteq> []) (star c s)"

text \<open>A literal under the \<^verbatim>\<open>i\<close> flag.\<close>

definition lit :: "string \<Rightarrow> matcher" where
  "lit w s =
     (if length w \<le> length s \<and> map lower (take (length w) s) = map lower w
      then [(take (length w) s, drop (length w) s)] else [])"

definition opt :: "matcher \<Rightarrow> matcher" where
  "opt m s = m s @ [([], s)]"

definition seq :: "matcher \<Rightarrow> matcher \<Rightarrow> matcher" where
  "seq m1 m2 s = concat (map (\<lambda>(a, r). map (\<lambda>(b, r'). (a @ b, r')) (m2 r)) (m1 s))"

definition alt :: "matcher list \<Rightarrow> matcher" where
  "alt ms s = concat (map (\<lambda>m. m s) ms)"

text \<open>A pattern anchored at both ends (\<^verbatim>\<open>^...$\<close>, no \<^verbatim>\<open>m\<close> flag).\<close>

definition full_match :: "matcher \<Rightarrow> string \<Rightarrow> bool" where
  "full_match m s = list_ex (\<lambda>(a, r). r = []) (m s)"

section \<open>Structural validator (assertion surface)\<close>

datatype ValidationError = ValidationError (message: string) (field: string)

type_synonym check = "ValidationError + unit"

text \<open>
  \<^verbatim>\<open>forEach\<close> with a callback that may throw: the first throw leaves the loop.
\<close>

fun forEach :: "(nat \<Rightarrow> check) \<Rightarrow> nat list \<Rightarrow> check" where
  "forEach f [] = Inr ()"
| "forEach f (i # is) = (case f i of Inl e \<Rightarrow> Inl e | Inr _ \<Rightarrow> forEach f is)"

text \<open>Two statements in a row: the second runs when the first did not throw.\<close>

definition andThen :: "check \<Rightarrow> check \<Rightarrow> check" where
  "andThen a b = (case a of Inl e \<Rightarrow> Inl e | Inr _ \<Rightarrow> b)"

record PricePoint =
  date :: string
  price :: jsnum
  volume :: jsnum

record SeasonalityData =
  month :: jsnum
  averagePrice_s :: jsnum
  salesVolume :: jsnum

record ForecastData =
  priceChange :: jsnum
  confidence :: jsnum

record Forecast =
  nextMonth :: ForecastData
  nextQuarter :: ForecastData
  nextYear :: ForecastData

record MarketTrends =
  priceHistory :: "PricePoint list"
  seasonality :: "SeasonalityData list"
  forecast :: Forecast

datatype SchoolType = Elementary | Middle | High

record SchoolInfo =
  name :: string
  rating :: jsnum
  schoolType :: SchoolType
  distance :: jsnum
  enrollment :: jsnum
  studentTeacherRatio :: jsnum

datatype Trend = Increasing | Decreasing | Stable

record DemographicMetric =
  metricValue :: jsnum
  trend :: Trend
  percentChange :: jsnum

record EducationLevels =
  highSchool :: DemographicMetric
  bachelors :: DemographicMetric
  graduate :: DemographicMetric

record DemographicAnalysis =
  population :: DemographicMetric
  medianAge :: DemographicMetric
  medianIncome :: DemographicMetric
  employmentRate :: DemographicMetric
  educationLevels :: EducationLevels

record Address =
  street :: string
  city_a :: string
  state :: string
  zipCode :: string

record SchoolDistrict =
  districtName :: string
  districtRating :: jsnum
  elementary :: "string list"
  middle :: "string list"
  high :: "string list"

record Demographics =
  population_d :: jsnum
  medianAge_d :: jsnum
  medianIncome_d :: jsnum
  employmentRate_d :: jsnum
  highSchool_d :: jsnum
  bachelors_d :: jsnum
  graduate_d :: jsnum

record MLSReport =
  report_mlsNumber :: string
  report_listPrice :: jsnum
  propertyType :: string
  report_bedrooms :: jsnum
  report_bathrooms :: jsnum
  squareFeet :: jsnum
  report_yearBuilt :: jsnum
  lotSize :: jsnum
  description :: string
  report_address :: Address
  features :: "string list"
  photos :: "string list"
  marketTrends :: MarketTrends
  statistics :: Statistics
  schoolDistrict :: SchoolDistrict
  demographics :: Demographics
  activeListings :: "Property list"
  closedListings :: "Property list"
  schoolDistricts :: "SchoolInfo list"
  demographicAnalysis :: DemographicAnalysis

text \<open>
  The type guards \<^verbatim>\<open>isPricePoint\<close>, \<^verbatim>\<open>isMarketTrends\<close>,
  \<^verbatim>\<open>isSchoolInfo\<close>, \<^verbatim>\<open>isDemographicMetric\<close> and
  \<^verbatim>\<open>isEducationLevels\<close> hold of every value of the records above, and so do the
  membership tests on \<^verbatim>\<open>type\<close> and \<^verbatim>\<open>trend\<close>: their throws have no
  branch here. \<^verbatim>\<open>isProperty\<close> is not trivial, since a listing may lack fields.
\<close>

definition dateRegex :: "string \<Rightarrow> bool" where
  "dateRegex s =
     full_match
       (seq (one is_digit) (seq (one is_digit) (seq (one is_digit) (seq (one is_digit)
          (seq (lit ''-'') (seq (one is_digit) (one is_digit))))))) s"

definition validatePricePoint :: "PricePoint \<Rightarrow> check" where
  "validatePricePoint v =
     (if \<not> dateRegex (date v)
      then Inl (ValidationError ''Invalid date format. Expected YYYY-MM'' ''date'')
      else if js_le (price v) (Num 0)
      then Inl (ValidationError ''Invalid price. Must be a positive number'' ''price'')
      else if js_lt (volume v) (Num 0)
      then Inl (ValidationError ''Invalid volume. Must be a positive number'' ''volume'')
      else Inr ())"

definition PRICE_VOLATILITY :: jsnum where "PRICE_VOLATILITY = dbl (15 / 100)"
definition MIN_CONFIDENCE :: jsnum where "MIN_CONFIDENCE = Num (1 / 2)"
definition MAX_CONFIDENCE :: jsnum where "MAX_CONFIDENCE = Num 1"
definition MAX_SEASONAL_VOLUME_CHANGE :: jsnum where "MAX_SEASONAL_VOLUME_CHANGE = Num (1 / 2)"
definition MAX_YOY_GROWTH :: jsnum where "MAX_YOY_GROWTH = dbl (30 / 100)"

definition check_pricePoint :: "PricePoint list \<Rightarrow> nat \<Rightarrow> check" where
  "check_pricePoint ph index =
     (let point = ph ! index in
      andThen (validatePricePoint point)
        (if index > 0 then
           (let prevPoint = ph ! (index - 1) in
            if str_le (date point) (date prevPoint)
            then Inl (ValidationError ''Price history must be in chronological order''
                       (''priceHistory['' @ show_nat index @ ''].date''))
            else if js_gt (js_abs (js_div (js_sub (price point) (price prevPoint))
                                      (price prevPoint))) PRICE_VOLATILITY
            then Inl (ValidationError ''Price volatility exceeds market threshold''
                       (''priceHistory['' @ show_nat index @ ''].price''))
            else Inr ())
         else Inr ()))"

definition check_seasonality :: "SeasonalityData list \<Rightarrow> nat \<Rightarrow> check" where
  "check_seasonality ss index =
     (let point = ss ! index in
      if js_lt (month point) (Num 1) \<or> js_gt (month point) (Num 12)
      then Inl (ValidationError ''Invalid month. Must be between 1 and 12''
                 (''seasonality['' @ show_nat index @ ''].month''))
      else if index > 0 then
        (if js_gt (js_abs (js_div (js_sub (salesVolume point) (salesVolume (ss ! (index - 1))))
                             (salesVolume (ss ! (index - 1))))) MAX_SEASONAL_VOLUME_CHANGE
         then Inl (ValidationError ''Invalid seasonal volume pattern''
                    (''seasonality['' @ show_nat index @ ''].salesVolume''))
         else Inr ())
      else Inr ())"

text \<open>\<^verbatim>\<open>Object.entries(value.forecast)\<close>, in the order of the type's declaration.\<close>

definition forecast_entries :: "Forecast \<Rightarrow> (string \<times> ForecastData) list" where
  "forecast_entries f =
     [(''nextMonth'', nextMonth f), (''nextQuarter'', nextQuarter f), (''nextYear'', nextYear f)]"

definition check_forecast :: "string \<times> ForecastData \<Rightarrow> check" where
  "check_forecast e =
     (case e of (period, fc) \<Rightarrow>
        if js_lt (confidence fc) MIN_CONFIDENCE \<or> js_gt (confidence fc) MAX_CONFIDENCE
        then Inl (ValidationError ''Invalid confidence value''
                   (''forecast.'' @ period @ ''.confidence''))
        else if period = ''nextYear'' \<and> js_gt (js_abs (priceChange fc)) MAX_YOY_GROWTH
        then Inl (ValidationError ''Annual growth rate exceeds historical bounds''
                   (''forecast.'' @ period @ ''.priceChange''))
        else Inr ())"

definition validateMarketTrends :: "MarketTrends \<Rightarrow> check" where
  "validateMarketTrends v =
     andThen (forEach (check_pricePoint (priceHistory v)) [0..<length (priceHistory v)])
    (andThen (forEach (check_seasonality (seasonality v)) [0..<length (seasonality v)])
             (forEach (\<lambda>i. check_forecast (forecast_entries (forecast v) ! i))
                [0..<length (forecast_entries (forecast v))]))"




fun str_of :: "string option \<Rightarrow> string" where
  "str_of None = []"
| "str_of (Some s) = s"















section \<open>Market forecast engine\<close>

record TrendStrength =
  strength :: jsnum
  direction :: Trend

text \<open>\<^verbatim>\<open>Math.pow(x, 2)\<close>, the square rounded to a double.\<close>

definition js_pow2 :: "jsnum \<Rightarrow> jsnum" where
  "js_pow2 x = js_mul x x"

definition priceChanges :: "PricePoint list \<Rightarrow> jsnum list" where
  "priceChanges recentPrices =
     map (\<lambda>i. if i = 0 then Num 0
              else js_mul (js_div (js_sub (price (recentPrices ! i))
                                     (price (recentPrices ! (i - 1))))
                             (price (recentPrices ! (i - 1)))) (Num 100))
       [0..<length recentPrices]"

definition avgChange :: "PricePoint list \<Rightarrow> jsnum" where
  "avgChange recentPrices =
     js_div (js_sum (priceChanges recentPrices))
       (js_sub (js_len (priceChanges recentPrices)) (Num 1))"

definition volatility :: "PricePoint list \<Rightarrow> jsnum" where
  "volatility recentPrices =
     js_sqrt (js_div (foldl (\<lambda>acc val. js_add acc (js_pow2 (js_sub val (avgChange recentPrices))))
                        (Num 0) (priceChanges recentPrices))
                (js_len (priceChanges recentPrices)))"

definition calculateTrendStrength :: "PricePoint list \<Rightarrow> TrendStrength" where
  "calculateTrendStrength recentPrices =
     (if length recentPrices < 2 then \<lparr> strength = Num 0, direction = Stable \<rparr>
      else \<lparr> strength = js_div (js_abs (avgChange recentPrices)) (volatility recentPrices),
             direction = (if js_gt (avgChange recentPrices) (Num 0) then Increasing
                          else if js_lt (avgChange recentPrices) (Num 0) then Decreasing
                          else Stable) \<rparr>)"

text \<open>
  \<^verbatim>\<open>analyzeSeasonality\<close> adds into two arrays of twelve zeros at index
  \<^verbatim>\<open>data.month - 1\<close>. A month that is not an integer from 1 to 12 writes outside
  the first twelve slots (an array extension or a named property), which no later read
  of the slots 0 to 11 sees; the model leaves the arrays as they are then. The result is
  the first twelve slots, \<open>None\<close> standing for \<^verbatim>\<open>null\<close>.
\<close>

definition season_add :: "jsnum list \<times> jsnum list \<Rightarrow> SeasonalityData \<Rightarrow> jsnum list \<times> jsnum list" where
  "season_add acc d =
     (case acc of (avgByMonth, countByMonth) \<Rightarrow>
        (case month d of
           Num m \<Rightarrow>
             if of_int \<lfloor>m\<rfloor> = m \<and> 1 \<le> m \<and> m \<le> 12
             then (let i = nat \<lfloor>m\<rfloor> - 1
                   in (avgByMonth[i := js_add (avgByMonth ! i) (averagePrice_s d)],
                       countByMonth[i := js_add (countByMonth ! i) (Num 1)]))
             else (avgByMonth, countByMonth)
         | _ \<Rightarrow> (avgByMonth, countByMonth)))"

definition analyzeSeasonality :: "SeasonalityData list \<Rightarrow> jsnum option list" where
  "analyzeSeasonality ss =
     (case foldl season_add (replicate 12 (Num 0), replicate 12 (Num 0)) ss of
        (avgByMonth, countByMonth) \<Rightarrow>
          map (\<lambda>i. if truthy (countByMonth ! i)
                   then Some (js_div (avgByMonth ! i) (countByMonth ! i)) else None)
            [0..<12])"

text \<open>
  The \<^verbatim>\<open>Date\<close> object is the runtime's, and what it answers depends on the time
  zone of the host. The engine takes its three answers as parameters, for a date string
  \<open>d\<close> and a number of months \<open>k\<close>:
  \<^item> \<open>lastMonth d\<close> is \<^verbatim>\<open>new Date(d).getMonth()\<close>, \<open>None\<close> for NaN;
  \<^item> \<open>predMonth d k\<close> is \<^verbatim>\<open>getMonth()\<close> after
    \<^verbatim>\<open>setMonth(getMonth() + k)\<close>, \<open>None\<close> for NaN;
  \<^item> \<open>predISO d k\<close> is \<^verbatim>\<open>toISOString().slice(0, 7)\<close> of that date,
    \<open>None\<close> when \<^verbatim>\<open>toISOString\<close> throws a RangeError (an invalid date).
\<close>

record Calendar =
  lastMonth :: "string \<Rightarrow> nat option"
  predMonth :: "string \<Rightarrow> nat \<Rightarrow> nat option"
  predISO :: "string \<Rightarrow> nat \<Rightarrow> string option"

text \<open>
  A calendar for hosts on UTC and date strings \<^verbatim>\<open>YYYY-MM\<close> with a month from
  01 to 12; every other string is taken as an invalid date.
\<close>

definition digits_value :: "string \<Rightarrow> nat" where
  "digits_value ds = foldl (\<lambda>a c. 10 * a + (of_char c - 48)) 0 ds"

definition parse_ym :: "string \<Rightarrow> (nat \<times> nat) option" where
  "parse_ym d =
     (if dateRegex d \<and> 1 \<le> digits_value (drop 5 d) \<and> digits_value (drop 5 d) \<le> 12
      then Some (digits_value (take 4 d), digits_value (drop 5 d)) else None)"

definition pad :: "nat \<Rightarrow> string \<Rightarrow> string" where
  "pad n s = replicate (n - length s) (CHR ''0'') @ s"

definition utc_calendar :: Calendar where
  "utc_calendar =
     \<lparr> lastMonth = (\<lambda>d. map_option (\<lambda>ym. snd ym - 1) (parse_ym d)),
       predMonth = (\<lambda>d k. map_option (\<lambda>ym. (snd ym - 1 + k) mod 12) (parse_ym d)),
       predISO = (\<lambda>d k. map_option
                   (\<lambda>ym. pad 4 (show_nat ((fst ym * 12 + (snd ym - 1) + k) div 12)) @ ''-''
                          @ pad 2 (show_nat ((fst ym * 12 + (snd ym - 1) + k) mod 12 + 1)))
                   (parse_ym d)) \<rparr>"

record MAPoint =
  ma_date :: string
  ma_price :: jsnum

record Prediction =
  pred_date :: string
  pred_price :: jsnum
  pred_confidence :: jsnum

datatype js_error = TypeError | RangeError

text \<open>
  \<^verbatim>\<open>seasonality[month]\<close>: the slot's truthiness, and its value as a number
  (\<^verbatim>\<open>null\<close> converts to 0, \<^verbatim>\<open>undefined\<close> to NaN).
\<close>

definition slot_truthy :: "jsnum option list \<Rightarrow> nat option \<Rightarrow> bool" where
  "slot_truthy xs idx =
     (case idx of None \<Rightarrow> False
      | Some i \<Rightarrow> if i < length xs then opt_truthy (xs ! i) else False)"

definition slot_number :: "jsnum option list \<Rightarrow> nat option \<Rightarrow> jsnum" where
  "slot_number xs idx =
     (case idx of None \<Rightarrow> NaN
      | Some i \<Rightarrow> if i < length xs then (case xs ! i of None \<Rightarrow> Num 0 | Some v \<Rightarrow> v) else NaN)"

definition predict :: "Calendar \<Rightarrow> PricePoint \<Rightarrow> MAPoint list \<Rightarrow> MAPoint list \<Rightarrow> TrendStrength
    \<Rightarrow> jsnum option list \<Rightarrow> nat \<Rightarrow> js_error + Prediction" where
  "predict cal lastPoint shortMA longMA trendInfo seasonalIndex i =
     (let lastPrice = price lastPoint;
          month = predMonth cal (date lastPoint) (i + 1);
          seasonalFactor =
            (if slot_truthy seasonalIndex month
             then js_div (slot_number seasonalIndex month)
                    (slot_number seasonalIndex (lastMonth cal (date lastPoint)))
             else Num 1);
          trendFactor =
            (if direction trendInfo = Stable then Num 1
             else if direction trendInfo = Increasing
             then js_add (Num 1)
                    (js_mul (js_mul (dbl (1 / 100)) (strength trendInfo)) (Num (of_nat (i + 1))))
             else js_sub (Num 1)
                    (js_mul (js_mul (dbl (1 / 100)) (strength trendInfo)) (Num (of_nat (i + 1)))));
          maFactor =
            (if shortMA \<noteq> [] \<and> longMA \<noteq> []
             then js_div (ma_price (last shortMA)) (ma_price (last longMA)) else Num 1);
          predictedPrice = js_mul (js_mul (js_mul lastPrice trendFactor) seasonalFactor) maFactor;
          confidence =
            js_max (Num 0)
              (js_sub (js_sub (Num 1) (js_mul (dbl (1 / 10)) (Num (of_nat (i + 1)))))
                 (js_mul (dbl (1 / 10)) (js_div (Num 1) (strength trendInfo))))
      in case predISO cal (date lastPoint) (i + 1) of
           None \<Rightarrow> Inl RangeError
         | Some d \<Rightarrow> Inr \<lparr> pred_date = d, pred_price = predictedPrice,
                           pred_confidence = confidence \<rparr>)"

text \<open>\<^verbatim>\<open>Array.from({ length: months }, f)\<close> with a callback that may throw.\<close>

fun array_from :: "(nat \<Rightarrow> js_error + 'a) \<Rightarrow> nat list \<Rightarrow> js_error + 'a list" where
  "array_from f [] = Inr []"
| "array_from f (i # is) =
     (case f i of Inl e \<Rightarrow> Inl e
      | Inr x \<Rightarrow> (case array_from f is of Inl e \<Rightarrow> Inl e | Inr xs \<Rightarrow> Inr (x # xs)))"

definition generatePredictions :: "Calendar \<Rightarrow> PricePoint list \<Rightarrow> MAPoint list \<Rightarrow> MAPoint list
    \<Rightarrow> TrendStrength \<Rightarrow> jsnum option list \<Rightarrow> nat \<Rightarrow> js_error + Prediction list" where
  "generatePredictions cal history shortMA longMA trendInfo seasonalIndex months =
     (if history = [] then Inl TypeError
      else array_from (predict cal (last history) shortMA longMA trendInfo seasonalIndex) [0..<months])"

section \<open>Line extractor\<close>

definition nothing :: matcher where
  "nothing s = [([], s)]"

text \<open>
  \<open>capture pre cap post\<close> is the pattern \<^verbatim>\<open>pre(cap)post\<close> tried at the start of
  the input: the text of the group in the first successful way to match.
\<close>

definition capture :: "matcher \<Rightarrow> matcher \<Rightarrow> matcher \<Rightarrow> string \<Rightarrow> string option" where
  "capture pre cap post s =
     (case concat (map (\<lambda>(a, r1). concat (map (\<lambda>(c, r2). map (\<lambda>b. c) (post r2)) (cap r1)))
                     (pre s)) of
        [] \<Rightarrow> None
      | c # _ \<Rightarrow> Some c)"

text \<open>An unanchored pattern is tried at every position, from the left.\<close>

fun search :: "(string \<Rightarrow> 'a option) \<Rightarrow> string \<Rightarrow> 'a option" where
  "search f [] = f []"
| "search f (x # xs) = (case f (x # xs) of Some c \<Rightarrow> Some c | None \<Rightarrow> search f xs)"

definition is_sep :: "char \<Rightarrow> bool" where
  "is_sep c = (c = CHR ''-'' \<or> is_space c)"

definition not_comma_nl :: "char \<Rightarrow> bool" where
  "not_comma_nl c = (c \<noteq> CHR '','' \<and> c \<noteq> CHR 0x0A)"

definition digit_or_comma :: "char \<Rightarrow> bool" where
  "digit_or_comma c = (is_digit c \<or> c = CHR '','')"

text \<open>\<^verbatim>\<open>/MLS#?\s*(\d+[-\s]*\d*)/i\<close>\<close>

definition mlsMatch :: "string \<Rightarrow> string option" where
  "mlsMatch line =
     search (capture (seq (lit ''MLS'') (seq (opt (lit ''#'')) (star is_space)))
               (seq (plus is_digit) (seq (star is_sep) (star is_digit))) nothing) line"

definition street_types :: "string list" where
  "street_types =
     [''Street'', ''St'', ''Avenue'', ''Ave'', ''Road'', ''Rd'', ''Lane'', ''Ln'', ''Drive'',
      ''Dr'', ''Court'', ''Ct'', ''Circle'', ''Cir'', ''Way'']"

text \<open>
  \<^verbatim>\<open>/(\d+[^,\n]*(?:Street|St|Avenue|Ave|Road|Rd|Lane|Ln|Drive|Dr|Court|Ct|Circle|Cir|Way)[^,\n]*)/i\<close>
\<close>

definition addressMatch :: "string \<Rightarrow> string option" where
  "addressMatch line =
     search (capture nothing
               (seq (plus is_digit) (seq (star not_comma_nl)
                  (seq (alt (map lit street_types)) (star not_comma_nl)))) nothing) line"

text \<open>\<^verbatim>\<open>/(?:List|Price|Sold)(?:\s*Price)?:\s*\$?([\d,]+)/i\<close>\<close>

definition priceMatch :: "string \<Rightarrow> string option" where
  "priceMatch line =
     search (capture
               (seq (alt [lit ''List'', lit ''Price'', lit ''Sold''])
                  (seq (opt (seq (star is_space) (lit ''Price'')))
                     (seq (lit '':'') (seq (star is_space) (opt (lit ''$''))))))
               (plus digit_or_comma) nothing) line"

text \<open>\<^verbatim>\<open>/(\d+)\s*(?:beds|bedrooms|BR)/i\<close>\<close>

definition bedroomMatch :: "string \<Rightarrow> string option" where
  "bedroomMatch line =
     search (capture nothing (plus is_digit)
               (seq (star is_space) (alt [lit ''beds'', lit ''bedrooms'', lit ''BR'']))) line"

text \<open>\<^verbatim>\<open>/(\d+(?:\.\d+)?)\s*(?:baths|bathrooms|BA)/i\<close>\<close>

definition bathroomMatch :: "string \<Rightarrow> string option" where
  "bathroomMatch line =
     search (capture nothing
               (seq (plus is_digit) (opt (seq (lit ''.'') (plus is_digit))))
               (seq (star is_space) (alt [lit ''baths'', lit ''bathrooms'', lit ''BA'']))) line"

text \<open>\<^verbatim>\<open>/([\d,]+)\s*(?:sqft|sf|square\s*feet)/i\<close>\<close>

definition sqftMatch :: "string \<Rightarrow> string option" where
  "sqftMatch line =
     search (capture nothing (plus digit_or_comma)
               (seq (star is_space)
                  (alt [lit ''sqft'', lit ''sf'',
                        seq (lit ''square'') (seq (star is_space) (lit ''feet''))]))) line"

text \<open>\<^verbatim>\<open>parseInt(s, 10)\<close>\<close>

definition parseInt :: "string \<Rightarrow> jsnum" where
  "parseInt s =
     (let t = dropWhile is_space s;
          neg = (t \<noteq> [] \<and> hd t = CHR ''-'');
          u = (if t \<noteq> [] \<and> (hd t = CHR ''-'' \<or> hd t = CHR ''+'') then tl t else t);
          ds = takeWhile is_digit u
      in if ds = [] then NaN
         else rnd ((if neg then - 1 else 1) * of_nat (digits_value ds)))"

text \<open>\<^verbatim>\<open>s.includes(w)\<close>\<close>

fun str_includes :: "string \<Rightarrow> string \<Rightarrow> bool" where
  "str_includes [] w = (w = [])"
| "str_includes (x # xs) w = (take (length w) (x # xs) = w \<or> str_includes xs w)"

text \<open>\<^verbatim>\<open>text.split('\n')\<close>\<close>

fun split_lines :: "string \<Rightarrow> string list" where
  "split_lines [] = [[]]"
| "split_lines (x # xs) =
     (if x = CHR 0x0A then [] # split_lines xs
      else (case split_lines xs of [] \<Rightarrow> [[x]] | l # ls \<Rightarrow> (x # l) # ls))"

text \<open>Truthiness of a string property: present and not empty.\<close>

fun str_truthy :: "string option \<Rightarrow> bool" where
  "str_truthy None = False"
| "str_truthy (Some s) = (s \<noteq> [])"

text \<open>
  \<^verbatim>\<open>Object.keys(currentProperty).length > 0\<close>: the accumulator has a field. The
  loop never stores \<^verbatim>\<open>undefined\<close>, so a key is there exactly when its field is.
\<close>

definition has_keys :: "Property \<Rightarrow> bool" where
  "has_keys p = (p \<noteq> blank_property)"

definition fresh_property :: "string \<Rightarrow> Property" where
  "fresh_property cap =
     blank_property
       \<lparr> mlsNumber := Some (filter (\<lambda>c. \<not> is_sep c) cap),
         city := Some ''Plano'',
         listPrice := Some (Num 0),
         bedrooms := Some (Num 0),
         bathrooms := Some ''0/0/0'',
         sqft := Some (Num 0),
         yearBuilt := Some (Num 0),
         garage := Some [],
         pool := Some False,
         acres := Some (Num 0),
         pricePerSqft := Some (Num 0) \<rparr>"

text \<open>The flush: \<^verbatim>\<open>properties.push(currentProperty)\<close> under its guard.\<close>

definition flush :: "Property list \<Rightarrow> Property \<Rightarrow> Property list" where
  "flush properties currentProperty =
     (if has_keys currentProperty \<and> str_truthy (mlsNumber currentProperty)
      then properties @ [currentProperty] else properties)"

text \<open>
  One round of the line loop, on the pair of \<^verbatim>\<open>properties\<close> and
  \<^verbatim>\<open>currentProperty\<close>. The accumulator is an object, so the
  \<^verbatim>\<open>&& currentProperty\<close> of each test holds.
\<close>

definition set_sqft :: "Property \<Rightarrow> string \<Rightarrow> Property" where
  "set_sqft cur cap =
     (let cur1 = cur \<lparr> sqft := Some (parseInt (filter (\<lambda>c. c \<noteq> CHR '','') cap)) \<rparr>
      in if opt_truthy (listPrice cur1)
         then cur1 \<lparr> pricePerSqft :=
                      Some (js_round (js_div (to_number (listPrice cur1))
                                        (to_number (sqft cur1)))) \<rparr>
         else cur1)"

definition set_price :: "Property \<Rightarrow> string \<Rightarrow> string \<Rightarrow> Property" where
  "set_price cur line cap =
     (let p = parseInt (filter (\<lambda>c. c \<noteq> CHR '','') cap)
      in if str_includes (map lower line) ''sold'' then cur \<lparr> soldPrice := Some p \<rparr>
         else cur \<lparr> listPrice := Some p \<rparr>)"

definition line_step :: "Property list \<times> Property \<Rightarrow> string \<Rightarrow> Property list \<times> Property" where
  "line_step st raw =
     (case st of (properties, cur) \<Rightarrow>
        (let line = trim raw in
         if line = [] then (properties, cur)
         else case mlsMatch line of
           Some cap \<Rightarrow> (flush properties cur, fresh_property cap)
         | None \<Rightarrow>
         (case addressMatch line of
            Some cap \<Rightarrow> (properties, cur \<lparr> address := Some (trim cap) \<rparr>)
          | None \<Rightarrow>
         (case priceMatch line of
            Some cap \<Rightarrow> (properties, set_price cur line cap)
          | None \<Rightarrow>
         (case bedroomMatch line of
            Some cap \<Rightarrow> (properties, cur \<lparr> bedrooms := Some (parseInt cap) \<rparr>)
          | None \<Rightarrow>
         (case bathroomMatch line of
            Some cap \<Rightarrow> (properties, cur \<lparr> bathrooms := Some (cap @ ''/0/0'') \<rparr>)
          | None \<Rightarrow>
         (case sqftMatch line of
            Some cap \<Rightarrow> (properties, set_sqft cur cap)
          | None \<Rightarrow> (properties, cur))))))))"

definition parse_lines :: "Property list \<times> Property \<Rightarrow> string list \<Rightarrow> Property list" where
  "parse_lines st lines = (case foldl line_step st lines of (ps, cur) \<Rightarrow> flush ps cur)"

definition parse_properties :: "string \<Rightarrow> Property list" where
  "parse_properties text = parse_lines ([], blank_property) (split_lines text)"

text \<open>\<^verbatim>\<open>properties[0]?.field || fallback\<close>\<close>

definition first_num :: "Property list \<Rightarrow> (Property \<Rightarrow> jsnum option) \<Rightarrow> jsnum" where
  "first_num ps f = (case ps of [] \<Rightarrow> Num 0 | p # _ \<Rightarrow> opt_or (f p) (Num 0))"

definition first_str :: "Property list \<Rightarrow> (Property \<Rightarrow> string option) \<Rightarrow> string \<Rightarrow> string" where
  "first_str ps f fallback =
     (case ps of [] \<Rightarrow> fallback | p # _ \<Rightarrow> if str_truthy (f p) then str_of (f p) else fallback)"

definition zero_metric :: DemographicMetric where
  "zero_metric = \<lparr> metricValue = Num 0, trend = Stable, percentChange = Num 0 \<rparr>"

definition zero_forecast :: ForecastData where
  "zero_forecast = \<lparr> priceChange = Num 0, confidence = Num 0 \<rparr>"

definition placeholder_trends :: MarketTrends where
  "placeholder_trends =
     \<lparr> priceHistory = [], seasonality = [],
       forecast = \<lparr> nextMonth = zero_forecast, nextQuarter = zero_forecast,
                    nextYear = zero_forecast \<rparr> \<rparr>"

definition extractMLSData :: "string \<Rightarrow> MLSReport" where
  "extractMLSData text =
     (let properties = parse_properties text;
          active = filter (\<lambda>p. \<not> opt_truthy (soldPrice p)) properties;
          closed = filter (\<lambda>p. opt_truthy (soldPrice p)) properties
      in \<lparr> report_mlsNumber = first_str properties mlsNumber ''UNKNOWN'',
           report_listPrice = first_num properties listPrice,
           propertyType = ''Single Family'',
           report_bedrooms = first_num properties bedrooms,
           report_bathrooms = Num 0,
           squareFeet = first_num properties sqft,
           report_yearBuilt = first_num properties yearBuilt,
           lotSize = first_num properties acres,
           description = ''Property details extracted from MLS data'',
           report_address =
             \<lparr> street = first_str properties address [],
               city_a = first_str properties city [],
               state = ''TX'', zipCode = ''00000'' \<rparr>,
           features = [],
           photos = [],
           marketTrends = placeholder_trends,
           statistics = synthesize active closed,
           schoolDistrict =
             \<lparr> districtName = ''Unknown School District'', districtRating = Num 0,
               elementary = [], middle = [], high = [] \<rparr>,
           demographics =
             \<lparr> population_d = Num 0, medianAge_d = Num 0, medianIncome_d = Num 0,
               employmentRate_d = Num 0, highSchool_d = Num 0, bachelors_d = Num 0,
               graduate_d = Num 0 \<rparr>,
           activeListings = active,
           closedListings = closed,
           schoolDistricts = [],
           demographicAnalysis =
             \<lparr> population = zero_metric, medianAge = zero_metric, medianIncome = zero_metric,
               employmentRate = zero_metric,
               educationLevels = \<lparr> highSchool = zero_metric, bachelors = zero_metric,
                                   graduate = zero_metric \<rparr> \<rparr> \<rparr>)"

section \<open>PDF pipeline orchestrator\<close>

text \<open>
  A thrown value is an \<^verbatim>\<open>Error\<close> with its message, or something else. The PDF
  library and the extractor that \<^verbatim>\<open>processPDF\<close> imports are parameters:
  \<open>pdf\<close> rejects or resolves to the document's text (\<open>None\<close> when the data or its
  text is missing), \<open>extract\<close> throws or returns a report.
\<close>

datatype thrown = JsError string | NonError

record ProcessingResult =
  success :: bool
  data :: "MLSReport option"
  error :: "string option"
  rawText :: "string option"

definition catch_handler :: "thrown \<Rightarrow> ProcessingResult" where
  "catch_handler e =
     (case e of
        JsError msg \<Rightarrow>
          if msg = ''Empty PDF''
          then \<lparr> success = False, data = None, error = Some ''Empty PDF'', rawText = None \<rparr>
          else \<lparr> success = False, data = None, error = Some msg, rawText = None \<rparr>
      | NonError \<Rightarrow>
          \<lparr> success = False, data = None,
            error = Some ''Unknown error during PDF processing'', rawText = None \<rparr>)"

definition processPDF :: "('b \<Rightarrow> thrown + string option) \<Rightarrow> (string \<Rightarrow> thrown + MLSReport)
    \<Rightarrow> 'b \<Rightarrow> ProcessingResult" where
  "processPDF pdf extract fileBuffer =
     (case pdf fileBuffer of
        Inl e \<Rightarrow> catch_handler e
      | Inr pdfData \<Rightarrow>
          if pdfData = None \<or> pdfData = Some []
          then catch_handler (JsError ''Failed to extract text from PDF'')
          else (case extract (str_of pdfData) of
                  Inl e \<Rightarrow> catch_handler e
                | Inr mlsData \<Rightarrow>
                    if activeListings mlsData = [] \<and> closedListings mlsData = []
                    then \<lparr> success = False, data = None,
                           error = Some ''No listings found in PDF'', rawText = pdfData \<rparr>
                    else \<lparr> success = True, data = Some mlsData, error = None,
                           rawText = pdfData \<rparr>))"

text \<open>
  A text with one sold listing and no active one, and the listing the extractor builds
  from it.
\<close>

definition sold_only_text :: string where
  "sold_only_text = ''MLS# 1'' @ [CHR 0x0A] @ ''Sold: 400000''"

definition sold_only :: Property where
  "sold_only = (fresh_property ''1'') \<lparr> soldPrice := Some (Num 400000) \<rparr>"

section \<open>Scenarios and reference definitions\<close>

text \<open>
  The other \<^verbatim>\<open>extractMLSData\<close> of the repository is a placeholder that throws
  \<^verbatim>\<open>new Error('Not implemented')\<close>; the working one never throws.
\<close>

definition placeholder_extract :: "string \<Rightarrow> thrown + MLSReport" where
  "placeholder_extract pdfText = Inl (JsError ''Not implemented'')"

definition line_extract :: "string \<Rightarrow> thrown + MLSReport" where
  "line_extract pdfText = Inr (extractMLSData pdfText)"

text \<open>Three PDF libraries: one rejects with the sentinel, one with a string, one resolves.\<close>

definition pdf_empty :: "unit \<Rightarrow> thrown + string option" where
  "pdf_empty b = Inl (JsError ''Empty PDF'')"

definition pdf_rejects_string :: "unit \<Rightarrow> thrown + string option" where
  "pdf_rejects_string b = Inl NonError"

definition pdf_text :: "unit \<Rightarrow> thrown + string option" where
  "pdf_text b = Inr (Some ''MLS# 1'')"

text \<open>
  Market trends with the price history of the specification's second scenario and
  forecast confidences that grow with the horizon.
\<close>

definition scenario_history :: "PricePoint list" where
  "scenario_history =
     [\<lparr> date = ''2024-01'', price = Num 500000, volume = Num 100 \<rparr>,
      \<lparr> date = ''2024-02'', price = Num 505000, volume = Num 95 \<rparr>,
      \<lparr> date = ''2024-03'', price = Num 510000, volume = Num 125 \<rparr>]"

definition rising_confidence :: MarketTrends where
  "rising_confidence =
     \<lparr> priceHistory = scenario_history, seasonality = [],
       forecast = \<lparr> nextMonth = \<lparr> priceChange = Num 0, confidence = Num (1 / 2) \<rparr>,
                    nextQuarter = \<lparr> priceChange = Num 0, confidence = Num (3 / 4) \<rparr>,
                    nextYear = \<lparr> priceChange = Num 0, confidence = Num 1 \<rparr> \<rparr> \<rparr>"

text \<open>The inputs of the specification's fourth scenario.\<close>

definition last_500000 :: "PricePoint list" where
  "last_500000 = [\<lparr> date = ''2024-01'', price = Num 500000, volume = Num 100 \<rparr>]"

definition no_trend :: TrendStrength where
  "no_trend = \<lparr> strength = Num 0, direction = Stable \<rparr>"

definition prices_of :: "js_error + Prediction list \<Rightarrow> jsnum list" where
  "prices_of r = (case r of Inl _ \<Rightarrow> [] | Inr ps \<Rightarrow> map pred_price ps)"

definition confidences_of :: "js_error + Prediction list \<Rightarrow> jsnum list" where
  "confidences_of r = (case r of Inl _ \<Rightarrow> [] | Inr ps \<Rightarrow> map pred_confidence ps)"

text \<open>Price points with the given prices.\<close>

definition points_of :: "real list \<Rightarrow> PricePoint list" where
  "points_of ps = map (\<lambda>p. \<lparr> date = ''2024-01'', price = Num p, volume = Num 0 \<rparr>) ps"

text \<open>
  Two price runs: a flat one, and one that doubles every month, so that both
  month-over-month changes are 100 percent.
\<close>

definition flat_prices :: "real list" where
  "flat_prices = [100, 100]"

definition doubling_prices :: "real list" where
  "doubling_prices = [100, 200, 400]"

text \<open>
  Three active listings with the list price that \<^verbatim>\<open>parseInt\<close> reads from
  \<^verbatim>\<open>9007199254740990\<close>.
\<close>

definition huge_price :: jsnum where
  "huge_price = parseInt ''9007199254740990''"

definition huge_listings :: "Property list" where
  "huge_listings = replicate 3 (blank_property \<lparr> listPrice := Some huge_price \<rparr>)"

text \<open>
  A listing whose sold price is present and zero, as the extractor builds it from the two
  lines \<^verbatim>\<open>MLS# 1\<close> and \<^verbatim>\<open>Sold: 0\<close>.
\<close>

definition zero_sold_text :: string where
  "zero_sold_text = ''MLS# 1'' @ [CHR 0x0A] @ ''Sold: 0''"

definition zero_sold :: Property where
  "zero_sold = (fresh_property ''1'') \<lparr> soldPrice := Some (Num 0) \<rparr>"

section \<open>The validator's rules, after the specification\<close>






















section \<open>Rounding to the nearest double\<close>

lemma pow2_pos [simp]: "0 < pow2 k"
  by (simp add: pow2_def)

lemma pow2_nz [simp]: "pow2 k \<noteq> 0"
  by (simp add: pow2_def)

lemma pow2_add: "pow2 (a + b) = pow2 a * pow2 b"
  by (simp add: pow2_def powr_add)

lemma pow2_le_iff [simp]: "pow2 a \<le> pow2 b \<longleftrightarrow> a \<le> b"
  by (simp add: pow2_def)

lemma pow2_less_iff [simp]: "pow2 a < pow2 b \<longleftrightarrow> a < b"
  by (simp add: pow2_def)

lemma pow2_nat: "0 \<le> k \<Longrightarrow> pow2 k = of_int (2 ^ nat k)"
  by (simp add: pow2_def powr_real_of_int)

lemma pow2_0 [simp]: "pow2 0 = 1"
  by (simp add: pow2_def)

lemma binade_bounds:
  assumes "x \<noteq> 0"
  shows "pow2 (binade x) \<le> \<bar>x\<bar>" and "\<bar>x\<bar> < pow2 (binade x + 1)"
proof -
  have "0 < \<bar>x\<bar>" using assms by simp
  from floor_log_eq_powr_iff[OF this, of 2 "binade x"]
  show "pow2 (binade x) \<le> \<bar>x\<bar>" and "\<bar>x\<bar> < pow2 (binade x + 1)"
    by (simp_all add: binade_def pow2_def)
qed

lemma binade_eq:
  assumes "pow2 e \<le> \<bar>x\<bar>" and "\<bar>x\<bar> < pow2 (e + 1)"
  shows "binade x = e"
proof -
  have "0 < \<bar>x\<bar>" using assms(1) pow2_pos[of e] by linarith
  from floor_log_eq_powr_iff[OF this, of 2 e] assms show ?thesis
    by (simp add: binade_def pow2_def)
qed

lemma rne_ge:
  assumes "of_int n \<le> y"
  shows "n \<le> rne y"
proof -
  have "n \<le> \<lfloor>y\<rfloor>" using assms by (simp add: le_floor_iff)
  moreover have "\<lfloor>y\<rfloor> \<le> rne y" by (simp add: rne_def)
  ultimately show ?thesis by simp
qed

lemma rne_le: "y \<le> of_int n \<Longrightarrow> rne y \<le> n"
proof -
  assume a: "y \<le> of_int n"
  have f: "\<lfloor>y\<rfloor> \<le> n" using a by (simp add: floor_le_iff) 
  show ?thesis
  proof (cases "y = of_int \<lfloor>y\<rfloor>")
    case True
    then have "y - of_int \<lfloor>y\<rfloor> < 1 / 2" by simp
    then show ?thesis using f by (simp add: rne_def)
  next
    case False
    then have "of_int \<lfloor>y\<rfloor> < y" by (metis of_int_floor_le order_less_le)
    then have "of_int \<lfloor>y\<rfloor> < (of_int n :: real)" using a by linarith
    then have "\<lfloor>y\<rfloor> + 1 \<le> n" by simp
    then show ?thesis using f by (simp add: rne_def)
  qed
qed


lemma ulp_pos [simp]: "0 < ulp x"
  by (simp add: ulp_def)

lemma ulp_minus [simp]: "ulp (- x) = ulp x"
  by (simp add: ulp_def binade_def)

lemma fl_pos: "0 < x \<Longrightarrow> fl x = of_int (rne (x / ulp x)) * ulp x"
  by (simp add: fl_def)

lemma fl_minus: "fl (- x) = - fl x"
  by (simp add: fl_def sgn_minus)

lemma pow2_53: "pow2 53 = of_int (2 ^ 53)" and pow2_52: "pow2 52 = of_int (2 ^ 52)"
  by (simp_all add: pow2_nat)

lemma rep_grid:
  assumes "m < 2 ^ 53" and "pow2 e \<le> of_int m * pow2 k"
  shows "e - 52 \<le> k"
proof -
  have "of_int m < pow2 53"
    using assms(1) by (simp add: pow2_53)
  then have "of_int m * pow2 k < pow2 53 * pow2 k"
    by (intro mult_strict_right_mono) simp_all
  then have "pow2 e < pow2 53 * pow2 k" using assms(2) by linarith
  then have "pow2 e < pow2 (53 + k)" by (simp only: pow2_add)
  then show ?thesis by simp
qed

lemma grid_int:
  assumes "e - 52 \<le> k"
  shows "of_int m * pow2 k / pow2 (e - 52) = of_int (m * 2 ^ nat (k - e + 52))"
proof -
  have "pow2 k = pow2 (k - e + 52) * pow2 (e - 52)"
    by (simp add: pow2_add[symmetric])
  moreover have "pow2 (k - e + 52) = of_int (2 ^ nat (k - e + 52))"
    using assms by (intro pow2_nat) simp
  ultimately show ?thesis by simp
qed

lemma grid_subnormal:
  assumes "- 1074 \<le> k"
  shows "of_int m * pow2 k / pow2 (- 1022 - 52) = of_int (m * 2 ^ nat (k + 1074))"
  using grid_int[of "- 1022" k m] assms by (simp add: algebra_simps)

text \<open>On the grid of \<open>x\<close>, a representable number between the powers of two around \<open>x\<close>,
  or any representable number when \<open>x\<close> is in the subnormal range, is a multiple of the unit.\<close>

lemma fl_lower_pos:
  assumes x: "0 < x" and z: "z = of_int m * pow2 k" and m: "\<bar>m\<bar> < 2 ^ 53"
    and k: "- 1074 \<le> k" and le: "z \<le> x"
  shows "z \<le> fl x"
proof -
  define e where "e = max (binade x) (- 1022)"
  define q where "q = pow2 (e - 52)"
  have q: "0 < q" by (simp add: q_def)
  have f: "fl x = of_int (rne (x / q)) * q" using x by (simp add: fl_pos ulp_def e_def q_def)
  have step: "z \<le> fl x" if zn: "z / q = of_int n" for n
  proof -
    have "of_int n \<le> x / q" using le q zn[symmetric] by (simp add: divide_le_cancel)
    then have "n \<le> rne (x / q)" by (rule rne_ge)
    then have "(of_int n :: real) * q \<le> of_int (rne (x / q)) * q"
      using q by (simp only: mult_le_cancel_right_pos of_int_le_iff)
    moreover have "z = of_int n * q" using zn q by (simp add: field_simps)
    ultimately show ?thesis using f by simp
  qed
  show ?thesis
  proof (cases "binade x < - 1022")
    case True
    then have "e = - 1022" by (simp add: e_def)
    then have "z / q = of_int (m * 2 ^ nat (k + 1074))"
      unfolding z q_def using grid_subnormal[OF k, of m] by simp
    then show ?thesis by (rule step)
  next
    case False
    then have e: "e = binade x" by (simp add: e_def)
    have b: "pow2 e \<le> x" using binade_bounds(1)[of x] x by (simp add: e)
    have "pow2 e = pow2 (52 + (e - 52))" by simp
    then have pe: "pow2 e = of_int (2 ^ 52) * q"
      unfolding q_def pow2_52[symmetric] by (simp only: pow2_add)
    have "of_int (2 ^ 52) \<le> x / q" using b q by (simp add: pe pos_le_divide_eq)
    then have "2 ^ 52 \<le> rne (x / q)" by (rule rne_ge)
    then have "(of_int (2 ^ 52) :: real) \<le> of_int (rne (x / q))" by (simp only: of_int_le_iff)
    then have base: "pow2 e \<le> fl x"
      unfolding pe f using q by (simp only: mult_le_cancel_right_pos)
    show ?thesis
    proof (cases "z \<le> pow2 e")
      case True
      then show ?thesis using base by linarith
    next
      case False
      then have gt: "pow2 e \<le> of_int m * pow2 k" using z by simp
      have "m < 2 ^ 53" using m by simp
      from rep_grid[OF this gt] have "e - 52 \<le> k" .
      then have "z / q = of_int (m * 2 ^ nat (k - e + 52))"
        unfolding z q_def by (rule grid_int)
      then show ?thesis by (rule step)
    qed
  qed
qed

lemma fl_upper_pos:
  assumes x: "0 < x" and z: "z = of_int m * pow2 k" and m: "\<bar>m\<bar> < 2 ^ 53"
    and k: "- 1074 \<le> k" and le: "x \<le> z"
  shows "fl x \<le> z"
proof -
  define e where "e = max (binade x) (- 1022)"
  define q where "q = pow2 (e - 52)"
  have q: "0 < q" by (simp add: q_def)
  have f: "fl x = of_int (rne (x / q)) * q" using x by (simp add: fl_pos ulp_def e_def q_def)
  have step: "fl x \<le> z" if zn: "z / q = of_int n" for n
  proof -
    have "x / q \<le> of_int n" using le q zn[symmetric] by (simp add: divide_le_cancel)
    then have "rne (x / q) \<le> n" by (rule rne_le)
    then have "of_int (rne (x / q)) * q \<le> (of_int n :: real) * q"
      using q by (simp only: mult_le_cancel_right_pos of_int_le_iff)
    moreover have "z = of_int n * q" using zn q by (simp add: field_simps)
    ultimately show ?thesis using f by simp
  qed
  show ?thesis
  proof (cases "binade x < - 1022")
    case True
    then have "e = - 1022" by (simp add: e_def)
    then have "z / q = of_int (m * 2 ^ nat (k + 1074))"
      unfolding z q_def using grid_subnormal[OF k, of m] by simp
    then show ?thesis by (rule step)
  next
    case False
    then have e: "e = binade x" by (simp add: e_def)
    have b: "pow2 e \<le> x" "x < pow2 (e + 1)" using binade_bounds[of x] x by (simp_all add: e)
    have "pow2 (e + 1) = pow2 (53 + (e - 52))" by (simp add: add.commute)
    then have pe: "pow2 (e + 1) = of_int (2 ^ 53) * q"
      unfolding q_def pow2_53[symmetric] by (simp only: pow2_add)
    have "x / q \<le> of_int (2 ^ 53)" using b(2) q by (simp add: pe pos_divide_le_eq)
    then have "rne (x / q) \<le> 2 ^ 53" by (rule rne_le)
    then have "(of_int (rne (x / q)) :: real) \<le> of_int (2 ^ 53)" by (simp only: of_int_le_iff)
    then have top: "fl x \<le> pow2 (e + 1)"
      unfolding pe f using q by (simp only: mult_le_cancel_right_pos)
    show ?thesis
    proof (cases "pow2 (e + 1) \<le> z")
      case True
      then show ?thesis using top by linarith
    next
      case False
      have gt: "pow2 e \<le> of_int m * pow2 k" using z le b(1) by simp
      have "m < 2 ^ 53" using m by simp
      from rep_grid[OF this gt] have "e - 52 \<le> k" .
      then have "z / q = of_int (m * 2 ^ nat (k - e + 52))"
        unfolding z q_def by (rule grid_int)
      then show ?thesis by (rule step)
    qed
  qed
qed

lemma representable_minus: "representable z \<Longrightarrow> representable (- z)"
proof -
  assume "representable z"
  then obtain m k where "z = of_int m * pow2 k" "\<bar>m\<bar> < 2 ^ 53" "- 1074 \<le> k"
    unfolding representable_def by blast
  then have "- z = of_int (- m) * pow2 k \<and> \<bar>- m\<bar> < 2 ^ 53 \<and> - 1074 \<le> k" by simp
  then show ?thesis unfolding representable_def by blast
qed

lemma fl_0 [simp]: "fl 0 = 0"
  by (simp add: fl_def)

lemma fl_ge:
  assumes "representable z" and "z \<le> x"
  shows "z \<le> fl x"
proof -
  from assms(1) obtain m k where z: "z = of_int m * pow2 k" "\<bar>m\<bar> < 2 ^ 53" "- 1074 \<le> k"
    unfolding representable_def by blast
  consider "x = 0" | "0 < x" | "x < 0" by linarith
  then show ?thesis
  proof cases
    case 1
    then show ?thesis using assms(2) by simp
  next
    case 2
    then show ?thesis using fl_lower_pos[OF 2 z] assms(2) by simp
  next
    case 3
    have "- z = of_int (- m) * pow2 k" "\<bar>- m\<bar> < 2 ^ 53" using z by simp_all
    from fl_upper_pos[OF _ this z(3), of "- x"] 3 assms(2) show ?thesis by (simp add: fl_minus)
  qed
qed

lemma fl_le:
  assumes "representable z" and "x \<le> z"
  shows "fl x \<le> z"
proof -
  have "- z \<le> fl (- x)"
    using assms by (intro fl_ge representable_minus) simp_all
  then show ?thesis by (simp add: fl_minus)
qed

lemma fl_representable: "representable z \<Longrightarrow> fl z = z"
  using fl_ge[of z z] fl_le[of z z] by simp

lemma representable_int:
  assumes "\<bar>z\<bar> \<le> 2 ^ 53"
  shows "representable (of_int z)"
proof (cases "\<bar>z\<bar> < 2 ^ 53")
  case True
  then have "of_int z = of_int z * pow2 0 \<and> \<bar>z\<bar> < 2 ^ 53 \<and> - 1074 \<le> (0::int)" by simp
  then show ?thesis unfolding representable_def by blast
next
  case False
  then have "z = 2 ^ 53 \<or> z = - (2 ^ 53)" using assms by linarith
  then have "(of_int z :: real) = of_int (z div 2) * pow2 1 \<and> \<bar>z div 2\<bar> < 2 ^ 53
      \<and> - 1074 \<le> (1::int)"
    by (auto simp: pow2_def)
  then show ?thesis unfolding representable_def by blast
qed

lemma fl_of_int: "\<bar>z\<bar> \<le> 2 ^ 53 \<Longrightarrow> fl (of_int z) = of_int z"
  by (simp add: fl_representable representable_int)

lemma fl_numeral: "numeral n \<le> (2 :: int) ^ 53 \<Longrightarrow> fl (numeral n) = numeral n"
  using fl_of_int[of "numeral n"] by simp

lemma fl_1 [simp]: "fl 1 = 1"
  using fl_of_int[of 1] by simp

lemma fl_eval_pos:
  assumes "pow2 e \<le> x" and "x < pow2 (e + 1)" and "- 1022 \<le> e"
  shows "fl x = of_int (rne (x / pow2 (e - 52))) * pow2 (e - 52)"
proof -
  have "0 < x" using assms(1) pow2_pos[of e] by linarith
  moreover have "binade x = e" using assms \<open>0 < x\<close> by (intro binade_eq) simp_all
  ultimately show ?thesis using assms(3) by (simp add: fl_pos ulp_def)
qed

lemma MAX_VALUE_large: "2 ^ 64 \<le> MAX_VALUE"
proof -
  have "(2::real) ^ 64 \<le> 2 ^ 971" by (intro power_increasing) simp_all
  also have "\<dots> \<le> (2 ^ 53 - 1) * 2 ^ 971" by simp
  finally show ?thesis by (simp add: MAX_VALUE_def)
qed

lemma representable_2_64: "representable (2 ^ 64)"
proof -
  have "(2::real) ^ 64 = of_int 1 * pow2 64 \<and> \<bar>1::int\<bar> < 2 ^ 53 \<and> - 1074 \<le> (64::int)"
    by (simp add: pow2_def)
  then show ?thesis unfolding representable_def by blast
qed

lemma rnd_small:
  assumes "\<bar>x\<bar> \<le> 2 ^ 64"
  shows "rnd x = Num (fl x)"
proof -
  have "fl x \<le> 2 ^ 64"
    using assms by (intro fl_le representable_2_64) simp
  moreover have "- (2 ^ 64) \<le> fl x"
    using assms by (intro fl_ge representable_minus representable_2_64) simp
  ultimately show ?thesis using MAX_VALUE_large by (simp add: rnd_def)
qed

lemma rnd_of_int: "\<bar>z\<bar> \<le> 2 ^ 53 \<Longrightarrow> rnd (of_int z) = Num (of_int z)"
proof -
  assume a: "\<bar>z\<bar> \<le> 2 ^ 53"
  then have "\<bar>of_int z :: real\<bar> \<le> of_int (2 ^ 53)" by (simp only: of_int_abs[symmetric] of_int_le_iff)
  then have "\<bar>of_int z :: real\<bar> \<le> 2 ^ 64" by simp
  then show ?thesis using a by (simp add: rnd_small fl_of_int)
qed

lemma rnd_numeral [simp]: "numeral n \<le> (2 :: int) ^ 53 \<Longrightarrow> rnd (numeral n) = Num (numeral n)"
  using rnd_of_int[of "numeral n"] by simp

lemma rnd_neg_numeral [simp]:
  "numeral n \<le> (2 :: int) ^ 53 \<Longrightarrow> rnd (- numeral n) = Num (- numeral n)"
  using rnd_of_int[of "- numeral n"] by simp

lemma rnd_0 [simp]: "rnd 0 = Num 0"
  using rnd_of_int[of 0] by simp

lemma rnd_1 [simp]: "rnd 1 = Num 1"
  using rnd_of_int[of 1] by simp

lemma rnd_between:
  assumes "representable lo" and "representable hi" and "lo \<le> x" and "x \<le> hi"
    and "- (2 ^ 64) \<le> lo" and "hi \<le> 2 ^ 64"
  shows "\<exists>a. rnd x = Num a \<and> lo \<le> a \<and> a \<le> hi"
proof -
  have "\<bar>x\<bar> \<le> 2 ^ 64" using assms(3-6) by simp
  then have "rnd x = Num (fl x)" by (rule rnd_small)
  moreover have "lo \<le> fl x" using assms(1,3) by (rule fl_ge)
  moreover have "fl x \<le> hi" using assms(2,4) by (rule fl_le)
  ultimately show ?thesis by blast
qed

lemma rnd_representable: "representable x \<Longrightarrow> \<bar>x\<bar> \<le> 2 ^ 64 \<Longrightarrow> rnd x = Num x"
  by (simp add: rnd_small fl_representable)

lemma representable_double: "representable z \<Longrightarrow> representable (2 * z)"
proof -
  assume "representable z"
  then obtain m k where z: "z = of_int m * pow2 k" and m: "\<bar>m\<bar> < 2 ^ 53" and k: "- 1074 \<le> k"
    unfolding representable_def by blast
  have "pow2 (k + 1) = 2 * pow2 k" by (simp add: pow2_def powr_add)
  then have "2 * z = of_int m * pow2 (k + 1)" by (simp add: z)
  moreover have "- 1074 \<le> k + 1" using k by simp
  ultimately show ?thesis unfolding representable_def using m by blast
qed

lemma representable_dyadic:
  assumes "\<bar>m\<bar> < 2 ^ 53" and "n \<le> 1074"
  shows "representable (of_int m / 2 ^ n)"
proof -
  have "pow2 (- int n) = 1 / 2 ^ n"
    by (simp add: pow2_def powr_minus powr_realpow divide_inverse)
  then have "of_int m / 2 ^ n = of_int m * pow2 (- int n)" by simp
  moreover have "- 1074 \<le> - int n" using assms(2) by simp
  ultimately show ?thesis unfolding representable_def using assms(1) by blast
qed

lemma rnd_between_int:
  assumes "of_int lo \<le> x" and "x \<le> of_int hi" and "\<bar>lo\<bar> \<le> 2 ^ 53" and "\<bar>hi\<bar> \<le> 2 ^ 53"
  shows "\<exists>a. rnd x = Num a \<and> of_int lo \<le> a \<and> a \<le> of_int hi"
proof (rule rnd_between)
  show "representable (of_int lo)" "representable (of_int hi)"
    using assms(3,4) by (simp_all add: representable_int)
  show "of_int lo \<le> x" "x \<le> of_int hi" by fact+
  have "- (2 ^ 53) \<le> lo" "hi \<le> 2 ^ 53" using assms(3,4) by linarith+
  then have "(of_int (- (2 ^ 53)) :: real) \<le> of_int lo" "(of_int hi :: real) \<le> of_int (2 ^ 53)"
    by (simp_all only: of_int_le_iff)
  then show "- (2 ^ 64) \<le> (of_int lo :: real)" "(of_int hi :: real) \<le> 2 ^ 64" by simp_all
qed
section \<open>Auxiliary facts\<close>

lemma js_le_Num [simp]: "js_le (Num x) (Num y) = (x \<le> y)"
  by (auto simp: js_le_def)

lemma js_gt_Num [simp]: "js_gt (Num x) (Num y) = (y < x)"
  by (simp add: js_gt_def)

lemma js_ge_Num [simp]: "js_ge (Num x) (Num y) = (y \<le> x)"
  by (simp add: js_ge_def)

lemma rnd_not_NaN: "rnd x \<noteq> NaN"
  by (simp add: rnd_def)

lemma representable_0: "representable 0"
  using representable_int[of 0] by simp

lemma representable_1: "representable 1"
  using representable_int[of 1] by simp


lemma representable_fraction:
  "numeral m < (2 :: int) ^ 53 \<Longrightarrow> n \<le> 1074 \<Longrightarrow> representable (numeral m / 2 ^ n)"
  using representable_dyadic[of "numeral m" n] by simp

lemma representable_unit_fraction: "n \<le> 1074 \<Longrightarrow> representable (1 / 2 ^ n)"
  using representable_dyadic[of 1 n] by simp

lemma representable_halves:
  "representable (1 / 2)" "representable (1 / 4)" "representable (1 / 8)"
  "representable (1 / 16)" "representable (1 / 64)" "representable (1 / 128)"
  "representable (3 / 4)" "representable (7 / 8)"
  using representable_unit_fraction[of 1] representable_unit_fraction[of 2]
    representable_unit_fraction[of 3] representable_unit_fraction[of 4]
    representable_unit_fraction[of 6] representable_unit_fraction[of 7]
    representable_fraction[of "num.Bit1 num.One" 2]
    representable_fraction[of "num.Bit1 (num.Bit1 num.One)" 3]
  by simp_all

lemma rnd_not_NegInf: "0 \<le> x \<Longrightarrow> rnd x \<noteq> NegInf"
proof -
  assume "0 \<le> x"
  then have "0 \<le> fl x" by (intro fl_ge representable_0)
  moreover have "0 \<le> MAX_VALUE" using MAX_VALUE_large by simp
  ultimately show ?thesis by (simp add: rnd_def)
qed

lemma rnd_not_PosInf: "x \<le> 1 \<Longrightarrow> rnd x \<noteq> PosInf"
proof -
  assume "x \<le> 1"
  then have "fl x \<le> 1" by (intro fl_le representable_1)
  moreover have "1 \<le> MAX_VALUE" using MAX_VALUE_large by simp
  ultimately show ?thesis by (simp add: rnd_def)
qed

lemma rnd_nonneg: "0 \<le> x \<Longrightarrow> rnd x = Num a \<Longrightarrow> 0 \<le> a"
  using fl_ge[OF representable_0, of x] by (auto simp: rnd_def split: if_splits)


lemma js_le_Num_rnd:
  assumes "representable b" and "b \<le> x" and "- (2 ^ 64) \<le> b" and "x \<le> 2 ^ 64"
  shows "js_le (Num b) (rnd x)"
proof -
  have "\<bar>x\<bar> \<le> 2 ^ 64" using assms(2-4) by simp
  then have "rnd x = Num (fl x)" by (rule rnd_small)
  moreover have "b \<le> fl x" using assms(1,2) by (rule fl_ge)
  ultimately show ?thesis by simp
qed

lemma js_le_abs_rnd_Num:
  assumes "representable b" and "\<bar>x\<bar> \<le> b" and "b \<le> 2 ^ 64"
  shows "js_le (js_abs (rnd x)) (Num b)"
proof -
  have "\<exists>a. rnd x = Num a \<and> - b \<le> a \<and> a \<le> b"
    using assms by (intro rnd_between representable_minus) simp_all
  then obtain a where "rnd x = Num a" "- b \<le> a" "a \<le> b" by blast
  then show ?thesis by simp
qed

lemma js_le_trans: "js_le a b \<Longrightarrow> js_le b c \<Longrightarrow> js_le a c"
  by (cases a; cases b; cases c) (auto simp: js_le_def)

text \<open>The doubles of the decimal thresholds, between two neighbouring powers of two.\<close>

lemma dbl_3_20: "js_le (Num (1 / 8)) (dbl (3 / 20))"
  unfolding dbl_def by (rule js_le_Num_rnd) (simp_all add: representable_halves)

lemma dbl_3_10: "js_le (Num (1 / 4)) (dbl (3 / 10))"
  unfolding dbl_def by (rule js_le_Num_rnd) (simp_all add: representable_halves)


lemma dbl_1_10: "\<exists>t. dbl (1 / 10) = Num t \<and> 0 < t"
proof -
  have "\<exists>a. rnd (1 / 10) = Num a \<and> 1 / 16 \<le> a \<and> a \<le> 1 / 8"
    by (rule rnd_between) (simp_all add: representable_halves)
  then show ?thesis unfolding dbl_def by force
qed


lemma change_within_volatility:
  "\<bar>x\<bar> \<le> 1 / 8 \<Longrightarrow> js_le (js_abs (rnd x)) (dbl (3 / 20))"
  by (rule js_le_trans[OF js_le_abs_rnd_Num dbl_3_20]) (simp_all add: representable_halves)

lemma js_le_not_gt: "js_le a b \<Longrightarrow> \<not> js_gt a b"
  by (simp add: js_le_def js_gt_def)



lemma change_not_above_volatility:
  "\<bar>x\<bar> \<le> 1 / 8 \<Longrightarrow> \<not> js_gt (js_abs (rnd x)) (dbl (3 / 20))"
  by (rule js_le_not_gt) (rule change_within_volatility)

lemma growth_within_limit: "x \<le> 1 / 4 \<Longrightarrow> js_le (Num x) (dbl (3 / 10))"
  by (rule js_le_trans[OF _ dbl_3_10]) simp

lemma growth_not_above_limit: "x \<le> 1 / 4 \<Longrightarrow> \<not> js_gt (Num x) (dbl (3 / 10))"
  by (rule js_le_not_gt) (rule growth_within_limit)


lemma sum_list_abs_nonneg: "0 \<le> sum_list (map abs (zs :: int list))"
  by (induction zs) simp_all

lemma of_int_sum_list_real: "(of_int (sum_list zs) :: real) = sum_list (map of_int zs)"
  by (induction zs) simp_all

lemma foldl_js_add_int:
  "\<bar>a\<bar> + sum_list (map abs zs) \<le> 2 ^ 53 \<Longrightarrow>
   foldl js_add (Num (of_int a)) (map (\<lambda>z. Num (of_int z)) zs) = Num (of_int (a + sum_list zs))"
proof (induction zs arbitrary: a)
  case Nil
  then show ?case by simp
next
  case (Cons z zs)
  have "\<bar>a + z\<bar> \<le> 2 ^ 53" using Cons.prems sum_list_abs_nonneg[of zs] by simp
  then have "rnd (of_int (a + z)) = Num (of_int (a + z))" by (rule rnd_of_int)
  then have step: "rnd (of_int a + of_int z) = Num (of_int a + of_int z)" by simp
  have "\<bar>a + z\<bar> + sum_list (map abs zs) \<le> 2 ^ 53" using Cons.prems by simp
  from Cons.IH[OF this] show ?case by (simp add: step add.assoc)
qed

lemma js_sum_int:
  "sum_list (map abs zs) \<le> 2 ^ 53 \<Longrightarrow>
   js_sum (map (\<lambda>z. Num (of_int z)) zs) = Num (of_int (sum_list zs))"
  using foldl_js_add_int[of 0 zs] by (simp add: js_sum_def)

lemma upt_3: "[0..<3] = [0, 1, 2]"
  by (simp add: upt_rec)

lemma andThen_Inr: "andThen a b = Inr u \<longleftrightarrow> a = Inr () \<and> b = Inr ()"
  by (cases a) (auto simp: andThen_def)

lemma forEach_Inr: "forEach f is = Inr u \<longleftrightarrow> list_all (\<lambda>i. f i = Inr ()) is"
  by (induction "is") (auto split: sum.splits)

lemma show_nat_digit: "n < 10 \<Longrightarrow> show_nat n = [digit_char n]"
  by simp

section \<open>Properties of the statistics synthesizer\<close>

lemma activeListPrices_scenario: "activeListPrices [scenario_active] = [Num 500000]"
  by (simp add: activeListPrices_def scenario_active_def blank_property_def js_gt_def)

lemma calculateAverage_single: "calculateAverage [Num 500000] = Num 500000"
  by (simp add: calculateAverage_def js_len_def js_sum_def rnd_numeral)

lemma calculateMedian_single: "calculateMedian [Num 500000] = Num 500000"
  by (simp add: calculateMedian_def js_len_def js_sort_def)

lemma calculateAverage_Nil: "calculateAverage [] = Num 0"
  by (simp add: calculateAverage_def js_len_def)

text \<open>
  C8: statistics synthesized from the single active listing
  \<open>{listPrice: 500000, sqft: 2000, pricePerSqft: 250}\<close> and no closed listing have
  averageListPrice 500000, medianListPrice 500000, averageSoldPrice 0, absorptionRate 0
  and monthsOfSupply 1.
\<close>

theorem synthesize_single_active:
  "averageListPrice (synthesize [scenario_active] []) = Num 500000
   \<and> medianListPrice (synthesize [scenario_active] []) = Num 500000
   \<and> averageSoldPrice (synthesize [scenario_active] []) = Num 0
   \<and> absorptionRate (synthesize [scenario_active] []) = Num 0
   \<and> monthsOfSupply (synthesize [scenario_active] []) = Num 1"
  by (simp add: synthesize_def activeListPrices_scenario calculateAverage_single
      calculateMedian_single calculateAverage_Nil soldPrices_def js_len_def js_or_def)

lemma set_js_insort: "set (js_insort x ys) = insert x (set ys)"
  by (induction ys) auto

lemma length_js_insort: "length (js_insort x ys) = Suc (length ys)"
  by (induction ys) auto

lemma set_js_sort: "set (js_sort xs) = set xs"
  by (induction xs) (simp_all add: js_sort_def set_js_insort)

lemma length_js_sort: "length (js_sort xs) = length xs"
  by (induction xs) (simp_all add: js_sort_def length_js_insort)

lemma sum_list_lower: "(\<And>z. z \<in> set zs \<Longrightarrow> lo \<le> z) \<Longrightarrow> of_nat (length zs) * lo \<le> sum_list (zs :: real list)"
  by (induction zs) (auto simp: algebra_simps add_mono)

lemma sum_list_upper: "(\<And>z. z \<in> set zs \<Longrightarrow> z \<le> hi) \<Longrightarrow> sum_list (zs :: real list) \<le> of_nat (length zs) * hi"
  by (induction zs) (auto simp: algebra_simps add_mono)

lemma abs_le_sum_list_abs: "z \<in> set zs \<Longrightarrow> \<bar>z\<bar> \<le> sum_list (map abs (zs :: int list))"
proof (induction zs)
  case Nil
  then show ?case by simp
next
  case (Cons y ys)
  then show ?case using sum_list_abs_nonneg[of ys] by auto
qed

lemma round_between:
  fixes x :: real and lo hi :: int
  assumes "of_int lo \<le> x" "x \<le> of_int hi"
  shows "lo \<le> \<lfloor>x + 1 / 2\<rfloor> \<and> \<lfloor>x + 1 / 2\<rfloor> \<le> hi"
proof
  from assms(1) have "of_int lo \<le> x + 1 / 2" by simp
  then show "lo \<le> \<lfloor>x + 1 / 2\<rfloor>" by (simp add: le_floor_iff)
  from assms(2) have "x + 1 / 2 < of_int hi + 1" by simp
  then show "\<lfloor>x + 1 / 2\<rfloor> \<le> hi" by (simp add: floor_le_iff)
qed

text \<open>
  A quotient that lies between two integers of magnitude at most \<open>2\<^sup>5\<^sup>3\<close> is rounded,
  first to a double and then by \<^verbatim>\<open>Math.round\<close>, to an integer between them.
\<close>

lemma js_round_rnd_between:
  fixes lo hi :: int
  assumes "of_int lo \<le> x" and "x \<le> of_int hi" and "\<bar>lo\<bar> \<le> 2 ^ 53" and "\<bar>hi\<bar> \<le> 2 ^ 53"
  shows "\<exists>a. js_round (rnd x) = Num (of_int a) \<and> lo \<le> a \<and> a \<le> hi"
proof -
  from rnd_between_int[OF assms] obtain y where
    y: "rnd x = Num y" "of_int lo \<le> y" "y \<le> of_int hi" by blast
  from round_between[OF y(2,3)] y(1) show ?thesis by simp
qed

lemma Min_Max_bounded:
  fixes zs :: "int list"
  assumes ne: "zs \<noteq> []" and small: "sum_list (map abs zs) \<le> 2 ^ 53"
  shows "\<bar>Min (set zs)\<bar> \<le> 2 ^ 53" and "\<bar>Max (set zs)\<bar> \<le> 2 ^ 53"
proof -
  have "Min (set zs) \<in> set zs" "Max (set zs) \<in> set zs"
    using ne by (simp_all add: Min_in Max_in)
  then have "\<bar>Min (set zs)\<bar> \<le> sum_list (map abs zs)" "\<bar>Max (set zs)\<bar> \<le> sum_list (map abs zs)"
    by (simp_all add: abs_le_sum_list_abs)
  then show "\<bar>Min (set zs)\<bar> \<le> 2 ^ 53" and "\<bar>Max (set zs)\<bar> \<le> 2 ^ 53"
    using small by linarith+
qed

lemma calculateAverage_int_bounds:
  fixes zs :: "int list"
  assumes ne: "zs \<noteq> []" and small: "sum_list (map abs zs) \<le> 2 ^ 53"
  shows "\<exists>a. calculateAverage (map (\<lambda>z. Num (of_int z)) zs) = Num (of_int a)
             \<and> Min (set zs) \<le> a \<and> a \<le> Max (set zs)"
proof -
  define rs :: "real list" where "rs = map of_int zs"
  have rs_ne: "rs \<noteq> []" and len: "length rs = length zs" and set: "set rs = of_int ` set zs"
    using ne by (simp_all add: rs_def)
  have n: "0 < real (length zs)" using ne by simp
  have sum: "(of_int (sum_list zs) :: real) = sum_list rs"
    by (simp add: rs_def of_int_sum_list_real)
  have lo: "of_int (Min (set zs)) \<le> of_int (sum_list zs) / real (length zs)"
  proof -
    have "of_nat (length rs) * of_int (Min (set zs)) \<le> sum_list rs"
      by (rule sum_list_lower) (auto simp: set)
    then show ?thesis using n by (simp add: sum len pos_le_divide_eq mult.commute)
  qed
  have hi: "of_int (sum_list zs) / real (length zs) \<le> of_int (Max (set zs))"
  proof -
    have "sum_list rs \<le> of_nat (length rs) * of_int (Max (set zs))"
      by (rule sum_list_upper) (auto simp: set)
    then show ?thesis using n by (simp add: sum len pos_divide_le_eq mult.commute)
  qed
  have "calculateAverage (map (\<lambda>z. Num (of_int z)) zs)
      = js_round (rnd (of_int (sum_list zs) / real (length zs)))"
    using ne by (simp add: calculateAverage_def js_len_def js_sum_int[OF small])
  with js_round_rnd_between[OF lo hi Min_Max_bounded[OF ne small]] show ?thesis by simp
qed

lemma calculateMedian_int_bounds:
  fixes zs :: "int list"
  assumes ne: "zs \<noteq> []" and small: "sum_list (map abs zs) \<le> 2 ^ 53"
  shows "\<exists>m. calculateMedian (map (\<lambda>z. Num (of_int z)) zs) = Num (of_int m)
             \<and> Min (set zs) \<le> m \<and> m \<le> Max (set zs)"
proof -
  define xs where "xs = map (\<lambda>z. Num (of_int z :: real)) zs"
  define sorted where "sorted = js_sort xs"
  have xs_ne: "xs \<noteq> []" and len: "length sorted = length zs"
    using ne by (simp_all add: xs_def sorted_def length_js_sort)
  note mm = Min_Max_bounded[OF ne small]
  let ?mid = "length sorted div 2"
  have elem: "\<exists>z. sorted ! i = Num (of_int z) \<and> Min (set zs) \<le> z \<and> z \<le> Max (set zs)"
    if "i < length sorted" for i
  proof -
    have "sorted ! i \<in> set sorted" using that by simp
    then have "sorted ! i \<in> set xs" by (simp add: sorted_def set_js_sort)
    then obtain z where "z \<in> set zs" "sorted ! i = Num (of_int z)" by (auto simp: xs_def)
    then show ?thesis by (meson List.finite_set Max_ge Min_le)
  qed
  have median: "calculateMedian xs =
      (if length sorted mod 2 \<noteq> 0 then sorted ! ?mid
       else js_round (js_div (js_add (sorted ! (?mid - 1)) (sorted ! ?mid)) (Num 2)))"
    using xs_ne by (simp add: calculateMedian_def js_len_def Let_def sorted_def)
  show ?thesis
  proof (cases "length sorted mod 2 \<noteq> 0")
    case True
    have "?mid < length sorted" using ne len by simp
    from elem[OF this] obtain z where
      z: "sorted ! ?mid = Num (of_int z)" "Min (set zs) \<le> z" "z \<le> Max (set zs)" by blast
    have "calculateMedian xs = Num (of_int z)"
      using True z(1) by (simp add: median)
    with z show ?thesis unfolding xs_def by blast
  next
    case False
    then have ev: "length sorted mod 2 = 0" by simp
    with ne len have two: "2 \<le> length sorted" by (cases zs; cases "tl zs") auto
    have i1: "?mid - 1 < length sorted" and i2: "?mid < length sorted" using two by auto
    from elem[OF i1] obtain a where
      a: "sorted ! (?mid - 1) = Num (of_int a)" "Min (set zs) \<le> a" "a \<le> Max (set zs)" by blast
    from elem[OF i2] obtain b where
      b: "sorted ! ?mid = Num (of_int b)" "Min (set zs) \<le> b" "b \<le> Max (set zs)" by blast
    let ?lo = "of_int (Min (set zs)) :: real" and ?hi = "of_int (Max (set zs)) :: real"
    have ab: "?lo \<le> of_int a" "?lo \<le> of_int b" "of_int a \<le> ?hi" "of_int b \<le> ?hi"
      using a(2,3) b(2,3) by simp_all
    have rep: "representable ?lo" "representable ?hi"
      using mm by (simp_all add: representable_int)
    have range: "- (2 ^ 53) \<le> ?lo" "?hi \<le> 2 ^ 53"
    proof -
      have "- (2 ^ 53) \<le> Min (set zs)" "Max (set zs) \<le> 2 ^ 53" using mm by linarith+
      then have "(of_int (- (2 ^ 53)) :: real) \<le> ?lo" "?hi \<le> of_int (2 ^ 53)"
        by (simp_all only: of_int_le_iff)
      then show "- (2 ^ 53) \<le> ?lo" "?hi \<le> 2 ^ 53" by simp_all
    qed
    have "\<exists>c. rnd (of_int a + of_int b) = Num c \<and> 2 * ?lo \<le> c \<and> c \<le> 2 * ?hi"
      using rep ab range by (intro rnd_between representable_double) simp_all
    then obtain c where c: "rnd (of_int a + of_int b) = Num c" "2 * ?lo \<le> c" "c \<le> 2 * ?hi"
      by blast
    have lo: "?lo \<le> c / 2" and hi: "c / 2 \<le> ?hi" using c(2,3) by simp_all
    have "calculateMedian xs = js_round (rnd (c / 2))"
      using ev a(1) b(1) c(1) by (simp add: median)
    with js_round_rnd_between[OF lo hi mm] show ?thesis unfolding xs_def by auto
  qed
qed

text \<open>
  C7, as amended: for every non-empty sequence of integers whose absolute values sum to
  at most \<open>2\<^sup>5\<^sup>3\<close>, so that the running sum of \<^verbatim>\<open>reduce\<close> is exact, the computed average
  and the computed median lie between the minimum and the maximum of the sequence. The
  quotient is rounded to a double and then to an integer, and neither rounding crosses
  an integer of that size.
\<close>

theorem average_median_within_bounds:
  fixes zs :: "int list"
  assumes "zs \<noteq> []" and "sum_list (map abs zs) \<le> 2 ^ 53"
  shows "js_le (Num (of_int (Min (set zs)))) (calculateAverage (map (\<lambda>z. Num (of_int z)) zs))
       \<and> js_le (calculateAverage (map (\<lambda>z. Num (of_int z)) zs)) (Num (of_int (Max (set zs))))
       \<and> js_le (Num (of_int (Min (set zs)))) (calculateMedian (map (\<lambda>z. Num (of_int z)) zs))
       \<and> js_le (calculateMedian (map (\<lambda>z. Num (of_int z)) zs)) (Num (of_int (Max (set zs))))"
proof -
  from calculateAverage_int_bounds[OF assms] obtain a where
    a: "calculateAverage (map (\<lambda>z. Num (of_int z)) zs) = Num (of_int a)"
       "Min (set zs) \<le> a" "a \<le> Max (set zs)" by blast
  from calculateMedian_int_bounds[OF assms] obtain m where
    m: "calculateMedian (map (\<lambda>z. Num (of_int z)) zs) = Num (of_int m)"
       "Min (set zs) \<le> m" "m \<le> Max (set zs)" by blast
  show ?thesis using a m by simp
qed

theorem average_median_within_bounds_witness:
  "[500000, 600000, 450000 :: int] \<noteq> []
   \<and> sum_list (map abs [500000, 600000, 450000 :: int]) \<le> 2 ^ 53
   \<and> js_le (Num (of_int (Min (set [500000, 600000, 450000 :: int]))))
        (calculateAverage (map (\<lambda>z. Num (of_int z)) [500000, 600000, 450000]))
   \<and> js_le (calculateAverage (map (\<lambda>z. Num (of_int z)) [500000, 600000, 450000]))
        (Num (of_int (Max (set [500000, 600000, 450000 :: int]))))
   \<and> js_le (Num (of_int (Min (set [500000, 600000, 450000 :: int]))))
        (calculateMedian (map (\<lambda>z. Num (of_int z)) [500000, 600000, 450000]))
   \<and> js_le (calculateMedian (map (\<lambda>z. Num (of_int z)) [500000, 600000, 450000]))
        (Num (of_int (Max (set [500000, 600000, 450000 :: int]))))"
  using average_median_within_bounds [of "[500000, 600000, 450000]"] by simp

lemma fl_27021597764222970: "fl 27021597764222970 = 27021597764222968"
proof -
  have "fl 27021597764222970
      = of_int (rne (27021597764222970 / pow2 (54 - 52))) * pow2 (54 - 52)"
    by (rule fl_eval_pos) (simp_all add: pow2_def)
  also have "\<dots> = 27021597764222968"
    by (simp add: pow2_def rne_def)
  finally show ?thesis .
qed

lemma fl_third: "fl (27021597764222968 / 3) = 9007199254740989"
proof -
  have "fl (27021597764222968 / 3)
      = of_int (rne (27021597764222968 / 3 / pow2 (52 - 52))) * pow2 (52 - 52)"
    by (rule fl_eval_pos) (simp_all add: pow2_def)
  also have "\<dots> = 9007199254740989"
    by (simp add: rne_def)
  finally show ?thesis .
qed

lemma rnd_18014398509481980: "rnd 18014398509481980 = Num 18014398509481980"
proof -
  have "(18014398509481980::real) = of_int 9007199254740990 * pow2 1
      \<and> \<bar>9007199254740990::int\<bar> < 2 ^ 53 \<and> - 1074 \<le> (1::int)"
    by (simp add: pow2_def)
  then have "representable 18014398509481980" unfolding representable_def by blast
  then show ?thesis by (simp add: rnd_representable)
qed

lemma huge_price_value: "huge_price = Num 9007199254740990"
  by (simp add: huge_price_def parseInt_def is_space_def is_digit_def digits_value_def
      rnd_numeral)

lemma huge_sum:
  "js_sum (replicate 3 (Num 9007199254740990)) = Num 27021597764222968"
proof -
  have "js_sum (replicate 3 (Num 9007199254740990)) = rnd 27021597764222970"
    by (simp add: js_sum_def eval_nat_numeral rnd_numeral rnd_18014398509481980)
  also have "\<dots> = Num 27021597764222968"
    by (simp add: rnd_small fl_27021597764222970)
  finally show ?thesis .
qed

lemma huge_average:
  "calculateAverage (replicate 3 (Num 9007199254740990)) = Num 9007199254740989"
proof -
  have "rnd (27021597764222968 / 3) = Num 9007199254740989"
    by (simp add: rnd_small fl_third)
  then show ?thesis
    by (simp add: calculateAverage_def js_len_def huge_sum)
qed

text \<open>
  C7 as stated fails on integers whose sum is not a double. Three listings with the list
  price 9007199254740990 have the running sums 9007199254740990, 18014398509481980 and
  27021597764222970; the last lies between the doubles 27021597764222968 and
  27021597764222972 and is rounded to the first. A third of it, 9007199254740989.33, is
  rounded to 9007199254740989, which is the average list price, one below the only
  price.
\<close>

theorem huge_average_below_minimum:
  "activeListPrices huge_listings = replicate 3 (Num 9007199254740990)
   \<and> averageListPrice (synthesize huge_listings []) = Num 9007199254740989
   \<and> js_lt (averageListPrice (synthesize huge_listings [])) (Num 9007199254740990)"
proof -
  have prices: "activeListPrices huge_listings = replicate 3 (Num 9007199254740990)"
    by (simp add: activeListPrices_def huge_listings_def huge_price_value js_gt_def)
  then show ?thesis
    by (simp add: synthesize_def huge_average)
qed
section \<open>Properties of the orchestrator\<close>

lemma catch_handler_fails:
  "success (catch_handler e) = False \<and> data (catch_handler e) = None
   \<and> rawText (catch_handler e) = None
   \<and> error (catch_handler e)
       = Some (case e of JsError msg \<Rightarrow> msg | NonError \<Rightarrow> ''Unknown error during PDF processing'')"
  by (cases e) (simp_all add: catch_handler_def)

text \<open>
  C9: when the PDF library rejects or the extractor throws, \<^verbatim>\<open>processPDF\<close>
  returns a failure and does not throw. Its error string is the message of a thrown
  \<^verbatim>\<open>Error\<close>, so \<^verbatim>\<open>Empty PDF\<close> passes verbatim, and the generic string for
  any other thrown value; the failure carries no raw text.
\<close>

theorem processPDF_catches_thrown:
  assumes "pdf fileBuffer = Inl e
           \<or> (pdf fileBuffer = Inr (Some t) \<and> t \<noteq> [] \<and> extract t = Inl e)"
  shows "success (processPDF pdf extract fileBuffer) = False
       \<and> data (processPDF pdf extract fileBuffer) = None
       \<and> rawText (processPDF pdf extract fileBuffer) = None
       \<and> error (processPDF pdf extract fileBuffer)
           = Some (case e of JsError msg \<Rightarrow> msg
                   | NonError \<Rightarrow> ''Unknown error during PDF processing'')
       \<and> (e = JsError ''Empty PDF''
            \<longrightarrow> error (processPDF pdf extract fileBuffer) = Some ''Empty PDF'')"
proof -
  have "processPDF pdf extract fileBuffer = catch_handler e"
    using assms by (auto simp: processPDF_def)
  then show ?thesis using catch_handler_fails[of e] by auto
qed

theorem processPDF_catches_thrown_witness:
  "error (processPDF pdf_empty placeholder_extract ()) = Some ''Empty PDF''
   \<and> rawText (processPDF pdf_empty placeholder_extract ()) = None
   \<and> success (processPDF pdf_empty placeholder_extract ()) = False
   \<and> error (processPDF pdf_rejects_string placeholder_extract ())
       = Some ''Unknown error during PDF processing''
   \<and> success (processPDF pdf_text placeholder_extract ()) = False
   \<and> error (processPDF pdf_text placeholder_extract ()) = Some ''Not implemented''"
  using processPDF_catches_thrown [of pdf_empty "()" "JsError ''Empty PDF''" "[]" placeholder_extract]
    processPDF_catches_thrown [of pdf_rejects_string "()" NonError "[]" placeholder_extract]
    processPDF_catches_thrown [of pdf_text "()" "JsError ''Not implemented''" "''MLS# 1''" placeholder_extract]
  by (simp add: pdf_empty_def pdf_rejects_string_def pdf_text_def placeholder_extract_def)

section \<open>Properties of the validator\<close>

lemma dateRegex_2024_01: "dateRegex ''2024-01''"
  by code_simp
lemma dateRegex_2024_02: "dateRegex ''2024-02''"
  by code_simp
lemma dateRegex_2024_03: "dateRegex ''2024-03''"
  by code_simp

lemma str_le_02_01: "\<not> str_le ''2024-02'' ''2024-01''"
  by code_simp
lemma str_le_03_02: "\<not> str_le ''2024-03'' ''2024-02''"
  by code_simp

lemma scenario_history_ok:
  "forEach (check_pricePoint scenario_history) [0..<length scenario_history] = Inr ()"
  by (simp add: scenario_history_def upt_3 check_pricePoint_def validatePricePoint_def
      andThen_def dateRegex_2024_01 dateRegex_2024_02 dateRegex_2024_03 str_le_02_01 str_le_03_02
      js_sub_def PRICE_VOLATILITY_def change_not_above_volatility)

text \<open>
  C1 as stated fails: the validator accepts market trends whose forecast confidences are
  0.5, 0.75 and 1.0 for the month, the quarter and the year.
\<close>

theorem confidence_may_grow_with_horizon:
  "validateMarketTrends rising_confidence = Inr ()
   \<and> js_lt (confidence (nextMonth (forecast rising_confidence)))
        (confidence (nextQuarter (forecast rising_confidence)))
   \<and> js_lt (confidence (nextQuarter (forecast rising_confidence)))
        (confidence (nextYear (forecast rising_confidence)))"
proof -
  have "priceHistory rising_confidence = scenario_history"
    by (simp add: rising_confidence_def)
  then have "forEach (check_pricePoint (priceHistory rising_confidence))
      [0..<length (priceHistory rising_confidence)] = Inr ()"
    using scenario_history_ok by simp
  then have "validateMarketTrends rising_confidence = Inr ()"
    by (simp add: validateMarketTrends_def andThen_def)
       (simp add: rising_confidence_def forecast_entries_def upt_3 check_forecast_def
          MIN_CONFIDENCE_def MAX_CONFIDENCE_def MAX_YOY_GROWTH_def growth_not_above_limit)
  then show ?thesis by (simp add: rising_confidence_def)
qed

text \<open>
  C1, as amended: in market trends that \<^verbatim>\<open>validateMarketTrends\<close> accepts, no
  forecast confidence is below 0.5 or above 1.0. The validator compares each confidence
  with these two bounds and never with another confidence.
\<close>

theorem valid_trends_confidence_range:
  assumes "validateMarketTrends v = Inr ()"
  shows "\<not> js_lt (confidence (nextMonth (forecast v))) (Num (1 / 2))
       \<and> \<not> js_gt (confidence (nextMonth (forecast v))) (Num 1)
       \<and> \<not> js_lt (confidence (nextQuarter (forecast v))) (Num (1 / 2))
       \<and> \<not> js_gt (confidence (nextQuarter (forecast v))) (Num 1)
       \<and> \<not> js_lt (confidence (nextYear (forecast v))) (Num (1 / 2))
       \<and> \<not> js_gt (confidence (nextYear (forecast v))) (Num 1)"
proof -
  from assms have "list_all (\<lambda>i. check_forecast (forecast_entries (forecast v) ! i) = Inr ())
      [0..<length (forecast_entries (forecast v))]"
    by (simp add: validateMarketTrends_def andThen_Inr forEach_Inr)
  then have "check_forecast (''nextMonth'', nextMonth (forecast v)) = Inr ()"
    "check_forecast (''nextQuarter'', nextQuarter (forecast v)) = Inr ()"
    "check_forecast (''nextYear'', nextYear (forecast v)) = Inr ()"
    by (simp_all add: forecast_entries_def upt_3)
  then show ?thesis
    by (simp add: check_forecast_def MIN_CONFIDENCE_def MAX_CONFIDENCE_def split: if_splits)
qed

theorem valid_trends_confidence_range_witness:
  "validateMarketTrends rising_confidence = Inr ()
   \<and> \<not> js_lt (confidence (nextMonth (forecast rising_confidence))) (Num (1 / 2))
   \<and> \<not> js_gt (confidence (nextYear (forecast rising_confidence))) (Num 1)"
proof -
  have h: "validateMarketTrends rising_confidence = Inr ()"
    using scenario_history_ok
    by (simp add: validateMarketTrends_def andThen_def rising_confidence_def forecast_entries_def
        upt_3 check_forecast_def MIN_CONFIDENCE_def MAX_CONFIDENCE_def MAX_YOY_GROWTH_def
        growth_not_above_limit)
  from valid_trends_confidence_range [OF h] h show ?thesis by simp
qed


















text \<open>
  The rules are rules on doubles. With 9007199254740992 active listings, one pending
  listing and an inventory level of 9007199254740998 the sum of the first two is rounded
  to 9007199254740992, six below the inventory level and not five, and the inventory rule
  fails.
\<close>

lemma inventory_sum_rounds:
  "js_add (Num 9007199254740992) (Num 1) = Num 9007199254740992
   \<and> js_gt (js_abs (js_sub (js_add (Num 9007199254740992) (Num 1)) (Num 9007199254740998)))
        (Num 5)"
proof -
  have "fl 9007199254740993
      = of_int (rne (9007199254740993 / pow2 (53 - 52))) * pow2 (53 - 52)"
    by (rule fl_eval_pos) (simp_all add: pow2_def)
  also have "\<dots> = 9007199254740992"
    by (simp add: pow2_def rne_def)
  finally have "rnd 9007199254740993 = Num 9007199254740992"
    by (simp add: rnd_small)
  then show ?thesis by (simp add: js_sub_def)
qed





















section \<open>Properties of the forecast engine\<close>

lemma analyzeSeasonality_Nil: "analyzeSeasonality [] = replicate 12 None"
  by (simp add: analyzeSeasonality_def upt_rec numeral_eq_Suc)

lemma slot_truthy_no_data: "slot_truthy (replicate 12 None) idx = False"
  by (cases idx) (simp_all add: slot_truthy_def)

lemma confidence_no_trend:
  "js_max (Num 0)
     (js_sub (js_sub (Num 1) (js_mul (dbl (1 / 10)) (Num (of_nat (i + 1)))))
        (js_mul (dbl (1 / 10)) (js_div (Num 1) (Num 0)))) = Num 0"
proof -
  obtain t where t: "dbl (1 / 10) = Num t" "0 < t" using dbl_1_10 by blast
  have inf: "js_mul (Num t) (js_div (Num 1) (Num 0)) = PosInf"
    using t(2) by (simp add: signed_inf_def)
  define y where "y = js_mul (Num t) (Num (of_nat (i + 1)))"
  define A where "A = js_sub (Num 1) y"
  have "0 \<le> t * of_nat (i + 1)" using t(2) by simp
  then have y: "y \<noteq> NaN" "y \<noteq> NegInf" "\<And>a. y = Num a \<Longrightarrow> 0 \<le> a"
    unfolding y_def using rnd_not_NaN rnd_not_NegInf rnd_nonneg by simp_all
  have A: "A \<noteq> NaN \<and> A \<noteq> PosInf"
  proof (cases y)
    case (Num a)
    then have "1 + - a \<le> 1" using y(3) by simp
    then show ?thesis
      unfolding A_def Num js_sub_def using rnd_not_NaN rnd_not_PosInf by simp
  qed (use y in \<open>simp_all add: A_def js_sub_def\<close>)
  then have "js_sub A PosInf = NegInf" by (cases A) (simp_all add: js_sub_def)
  then show ?thesis
    unfolding t inf y_def[symmetric] A_def[symmetric] by (simp add: js_max_def)
qed

lemma predict_no_trend:
  "predISO cal (date p) (Suc i) = Some d \<Longrightarrow> price p = Num 500000 \<Longrightarrow>
   predict cal p [] [] no_trend (analyzeSeasonality []) i
     = Inr \<lparr> pred_date = d, pred_price = Num 500000, pred_confidence = Num 0 \<rparr>"
  unfolding predict_def analyzeSeasonality_Nil slot_truthy_no_data no_trend_def Let_def
  using confidence_no_trend[of i] by simp

text \<open>
  C3, as amended: for a price history whose last price is 500000, a horizon of three
  months, a trend of strength 0 and direction stable, no seasonality data and no moving
  averages, \<^verbatim>\<open>generatePredictions\<close> returns three predictions with price 500000
  and confidence 0, on every host whose \<^verbatim>\<open>Date\<close> accepts the last date. The term
  \<^verbatim>\<open>0.1 * (1 / strength)\<close> is not guarded: it is \<open>Infinity\<close>, and
  \<^verbatim>\<open>Math.max(0, -Infinity)\<close> is \<open>0\<close>.
\<close>

theorem zero_strength_predictions:
  assumes "history \<noteq> []" and "price (last history) = Num 500000"
    and "list_all (\<lambda>k. predISO cal (date (last history)) k \<noteq> None) [1, 2, 3]"
  shows "prices_of (generatePredictions cal history [] [] no_trend (analyzeSeasonality []) 3)
           = [Num 500000, Num 500000, Num 500000]
       \<and> confidences_of (generatePredictions cal history [] [] no_trend (analyzeSeasonality []) 3)
           = [Num 0, Num 0, Num 0]"
proof -
  from assms(3) obtain d1 d2 d3 where
    o: "predISO cal (date (last history)) 1 = Some d1"
       "predISO cal (date (last history)) 2 = Some d2"
       "predISO cal (date (last history)) 3 = Some d3"
    by fastforce
  have d: "predISO cal (date (last history)) (Suc 0) = Some d1"
    "predISO cal (date (last history)) (Suc 1) = Some d2"
    "predISO cal (date (last history)) (Suc 2) = Some d3"
    using o by (simp_all add: eval_nat_numeral)
  note p = predict_no_trend[OF d(1) assms(2)] predict_no_trend[OF d(2) assms(2)]
    predict_no_trend[OF d(3) assms(2)]
  have "generatePredictions cal history [] [] no_trend (analyzeSeasonality []) 3
      = array_from (predict cal (last history) [] [] no_trend (analyzeSeasonality [])) [0, 1, 2]"
    using assms(1) by (simp add: generatePredictions_def upt_3)
  also have "\<dots> = Inr [\<lparr> pred_date = d1, pred_price = Num 500000, pred_confidence = Num 0 \<rparr>,
      \<lparr> pred_date = d2, pred_price = Num 500000, pred_confidence = Num 0 \<rparr>,
      \<lparr> pred_date = d3, pred_price = Num 500000, pred_confidence = Num 0 \<rparr>]"
    by (simp only: array_from.simps p sum.case)
  finally show ?thesis by (simp add: prices_of_def confidences_of_def)
qed

lemma parse_ym_2024_01: "parse_ym ''2024-01'' = Some (2024, 1)"
proof -
  have "dateRegex ''2024-01''" by code_simp
  then show ?thesis by (simp add: parse_ym_def digits_value_def)
qed

lemma show_nat_2024: "show_nat 2024 = ''2024''"
  by (simp add: digit_char_def)

lemma utc_iso_2024_01:
  "predISO utc_calendar ''2024-01'' 1 = Some ''2024-02''"
  "predISO utc_calendar ''2024-01'' 2 = Some ''2024-03''"
  "predISO utc_calendar ''2024-01'' 3 = Some ''2024-04''"
  by (simp_all add: utc_calendar_def parse_ym_2024_01 show_nat_2024 show_nat_digit pad_def
      digit_char_def del: show_nat.simps)

theorem zero_strength_predictions_witness:
  "last_500000 \<noteq> [] \<and> price (last last_500000) = Num 500000
   \<and> list_all (\<lambda>k. predISO utc_calendar (date (last last_500000)) k \<noteq> None) [1, 2, 3]
   \<and> prices_of (generatePredictions utc_calendar last_500000 [] [] no_trend
                  (analyzeSeasonality []) 3) = [Num 500000, Num 500000, Num 500000]
   \<and> confidences_of (generatePredictions utc_calendar last_500000 [] [] no_trend
                       (analyzeSeasonality []) 3) = [Num 0, Num 0, Num 0]"
proof -
  have h: "last_500000 \<noteq> []" "price (last last_500000) = Num 500000"
    "list_all (\<lambda>k. predISO utc_calendar (date (last last_500000)) k \<noteq> None) [1, 2, 3]"
    using utc_iso_2024_01 by (simp_all add: last_500000_def)
  from zero_strength_predictions [OF h] h show ?thesis by simp
qed

text \<open>
  C3 as stated fails at the scenario's input: the confidences are 0, 0 and 0, not 0.9,
  0.8 and 0.7.
\<close>

theorem zero_strength_confidence_is_zero:
  "generatePredictions utc_calendar last_500000 [] [] no_trend (analyzeSeasonality []) 3
     = Inr [\<lparr> pred_date = ''2024-02'', pred_price = Num 500000, pred_confidence = Num 0 \<rparr>,
            \<lparr> pred_date = ''2024-03'', pred_price = Num 500000, pred_confidence = Num 0 \<rparr>,
            \<lparr> pred_date = ''2024-04'', pred_price = Num 500000, pred_confidence = Num 0 \<rparr>]
   \<and> confidences_of (generatePredictions utc_calendar last_500000 [] [] no_trend
                       (analyzeSeasonality []) 3)
       \<noteq> [Num (9 / 10), Num (8 / 10), Num (7 / 10)]"
proof -
  have l: "last last_500000 = \<lparr> date = ''2024-01'', price = Num 500000, volume = Num 100 \<rparr>"
    by (simp add: last_500000_def)
  have d: "predISO utc_calendar (date (last last_500000)) (Suc 0) = Some ''2024-02''"
    "predISO utc_calendar (date (last last_500000)) (Suc 1) = Some ''2024-03''"
    "predISO utc_calendar (date (last last_500000)) (Suc 2) = Some ''2024-04''"
    using utc_iso_2024_01 by (simp_all add: l eval_nat_numeral)
  have x: "price (last last_500000) = Num 500000" by (simp add: l)
  note p = predict_no_trend[OF d(1) x] predict_no_trend[OF d(2) x] predict_no_trend[OF d(3) x]
  have "generatePredictions utc_calendar last_500000 [] [] no_trend (analyzeSeasonality []) 3
      = array_from (predict utc_calendar (last last_500000) [] [] no_trend (analyzeSeasonality []))
          [0, 1, 2]"
    by (simp add: generatePredictions_def upt_3 last_500000_def)
  also have "\<dots> = Inr [\<lparr> pred_date = ''2024-02'', pred_price = Num 500000, pred_confidence = Num 0 \<rparr>,
            \<lparr> pred_date = ''2024-03'', pred_price = Num 500000, pred_confidence = Num 0 \<rparr>,
            \<lparr> pred_date = ''2024-04'', pred_price = Num 500000, pred_confidence = Num 0 \<rparr>]"
    by (simp only: array_from.simps p sum.case)
  finally show ?thesis by (simp add: confidences_of_def)
qed

lemma points_of_flat:
  "points_of flat_prices
     = [\<lparr> date = ''2024-01'', price = Num 100, volume = Num 0 \<rparr>,
        \<lparr> date = ''2024-01'', price = Num 100, volume = Num 0 \<rparr>]"
  by (simp add: points_of_def flat_prices_def)

lemma priceChanges_flat: "priceChanges (points_of flat_prices) = [Num 0, Num 0]"
  by (simp add: priceChanges_def points_of_flat upt_rec js_sub_def)

lemma avgChange_flat: "avgChange (points_of flat_prices) = Num 0"
  by (simp add: avgChange_def priceChanges_flat js_sum_def js_len_def js_sub_def)

lemma volatility_flat: "volatility (points_of flat_prices) = Num 0"
  by (simp add: volatility_def priceChanges_flat avgChange_flat js_pow2_def js_len_def
      js_sub_def)

lemma points_of_doubling:
  "points_of doubling_prices
     = [\<lparr> date = ''2024-01'', price = Num 100, volume = Num 0 \<rparr>,
        \<lparr> date = ''2024-01'', price = Num 200, volume = Num 0 \<rparr>,
        \<lparr> date = ''2024-01'', price = Num 400, volume = Num 0 \<rparr>]"
  by (simp add: points_of_def doubling_prices_def)

lemma priceChanges_doubling:
  "priceChanges (points_of doubling_prices) = [Num 0, Num 100, Num 100]"
  by (simp add: priceChanges_def points_of_doubling upt_3 js_sub_def)

lemma avgChange_doubling: "avgChange (points_of doubling_prices) = Num 100"
  by (simp add: avgChange_def priceChanges_doubling js_sum_def js_len_def js_sub_def)

lemma volatility_doubling:
  "\<exists>v. volatility (points_of doubling_prices) = Num v \<and> 57 \<le> v \<and> v \<le> 58"
proof -
  have "\<exists>q. rnd (10000 / 3) = Num q \<and> of_int 3333 \<le> q \<and> q \<le> of_int 3334"
    by (rule rnd_between_int) simp_all
  then obtain q where q: "rnd (10000 / 3) = Num q" "3333 \<le> q" "q \<le> 3334" by auto
  have "57 \<le> sqrt q" using q(2) by (intro real_le_rsqrt) simp
  moreover have "sqrt q \<le> 58" using q(2,3) by (intro real_le_lsqrt) simp_all
  ultimately have "\<exists>v. rnd (sqrt q) = Num v \<and> of_int 57 \<le> v \<and> v \<le> of_int 58"
    by (intro rnd_between_int) simp_all
  then obtain v where v: "rnd (sqrt q) = Num v" "57 \<le> v" "v \<le> 58" by auto
  have "volatility (points_of doubling_prices) = js_sqrt (Num q)"
    by (simp add: volatility_def priceChanges_doubling avgChange_doubling js_pow2_def
        js_sub_def js_len_def q(1) del: js_sqrt.simps)
  also have "\<dots> = Num v" using q(2) v(1) by simp
  finally show ?thesis using v(2,3) by blast
qed

lemma strength_doubling:
  "js_ge (strength (calculateTrendStrength (points_of doubling_prices))) (Num 1)"
proof -
  from volatility_doubling obtain v where
    v: "volatility (points_of doubling_prices) = Num v" "57 \<le> v" "v \<le> 58" by blast
  have "1 \<le> 100 / v" using v(2,3) by (simp add: pos_le_divide_eq)
  moreover have "100 / v \<le> 2" using v(2) by (simp add: pos_divide_le_eq)
  ultimately have "\<exists>s. rnd (100 / v) = Num s \<and> of_int 1 \<le> s \<and> s \<le> of_int 2"
    by (intro rnd_between_int) simp_all
  then obtain s where s: "rnd (100 / v) = Num s" "1 \<le> s" by auto
  have "strength (calculateTrendStrength (points_of doubling_prices)) = Num s"
    using v(2) s(1) by (simp add: calculateTrendStrength_def points_of_doubling[symmetric]
        avgChange_doubling v(1)) (simp add: points_of_doubling)
  then show ?thesis using s(2) by simp
qed

text \<open>
  C4: the strength is \<open>0\<close> whenever the volatility is \<open>0\<close>. The code does not do this.
  On the flat price run \<open>[100, 100]\<close> both changes, their average and the volatility are
  \<open>0\<close>, and the strength is \<open>0 / 0\<close>, which is NaN; the guard for fewer than two points
  has no sibling for a volatility of \<open>0\<close>. The volatility is also not the population
  standard deviation of the changes: the deviations are summed over the changes and the
  placeholder \<open>0\<close> of the first point. On the run \<open>[100, 200, 400]\<close> both changes are 100
  percent, their standard deviation is \<open>0\<close>, and the code computes a volatility between
  57 and 58 and a strength of at least 1.
\<close>

theorem flat_prices_strength_is_NaN:
  "priceChanges (points_of flat_prices) = [Num 0, Num 0]
   \<and> avgChange (points_of flat_prices) = Num 0
   \<and> volatility (points_of flat_prices) = Num 0
   \<and> strength (calculateTrendStrength (points_of flat_prices)) = NaN
   \<and> direction (calculateTrendStrength (points_of flat_prices)) = Stable
   \<and> priceChanges (points_of doubling_prices) = [Num 0, Num 100, Num 100]
   \<and> js_ge (volatility (points_of doubling_prices)) (Num 57)
   \<and> js_ge (strength (calculateTrendStrength (points_of doubling_prices))) (Num 1)"
proof -
  have "length (points_of flat_prices) = 2" by (simp add: points_of_flat)
  then have "strength (calculateTrendStrength (points_of flat_prices)) = NaN"
    "direction (calculateTrendStrength (points_of flat_prices)) = Stable"
    by (simp_all add: calculateTrendStrength_def avgChange_flat volatility_flat)
  moreover have "js_ge (volatility (points_of doubling_prices)) (Num 57)"
    using volatility_doubling by auto
  ultimately show ?thesis
    using priceChanges_flat avgChange_flat volatility_flat priceChanges_doubling strength_doubling
    by simp
qed
section \<open>Properties of the line extractor\<close>

lemma split_lines_not_Nil: "split_lines s \<noteq> []"
  by (induction s) (auto split: list.splits)

lemma split_lines_append:
  "split_lines (pre @ CHR 0x0A # rest) = split_lines pre @ split_lines rest"
proof (induction pre)
  case Nil
  show ?case by simp
next
  case (Cons x xs)
  obtain l ls where l: "split_lines xs = l # ls"
    using split_lines_not_Nil[of xs] by (cases "split_lines xs") auto
  show ?case using Cons l by simp
qed

lemma set_price_mlsNumber: "mlsNumber (set_price cur line cap) = mlsNumber cur"
  by (simp add: set_price_def Let_def)

lemma set_sqft_mlsNumber: "mlsNumber (set_sqft cur cap) = mlsNumber cur"
  by (simp add: set_sqft_def Let_def)

lemma line_step_no_mls:
  assumes "mlsMatch (trim raw) = None"
  shows "\<exists>cur'. line_step (ps, cur) raw = (ps, cur') \<and> mlsNumber cur' = mlsNumber cur"
  using assms
  by (auto simp: line_step_def Let_def set_price_mlsNumber set_sqft_mlsNumber split: option.splits)

lemma line_step_mls:
  assumes "mlsMatch (trim raw) = Some cap"
  shows "line_step (ps, cur) raw
         = (if trim raw = [] then (ps, cur) else (flush ps cur, fresh_property cap))"
  using assms by (simp add: line_step_def Let_def)

lemma flush_no_mls: "mlsNumber cur = None \<Longrightarrow> flush ps cur = ps"
  by (simp add: flush_def)

lemma parse_lines_Cons:
  "parse_lines st (l # ls) = parse_lines (line_step st l) ls"
  by (simp add: parse_lines_def)

lemma parse_lines_ignores_unnumbered:
  assumes "mlsNumber c1 = None" and "mlsNumber c2 = None"
  shows "parse_lines (ps, c1) ls = parse_lines (ps, c2) ls"
  using assms
proof (induction ls arbitrary: c1 c2)
  case Nil
  then show ?case by (simp add: parse_lines_def flush_no_mls)
next
  case (Cons l ls)
  show ?case
  proof (cases "mlsMatch (trim l)")
    case None
    from line_step_no_mls[OF None, of ps c1] obtain d1 where
      d1: "line_step (ps, c1) l = (ps, d1)" "mlsNumber d1 = mlsNumber c1" by blast
    from line_step_no_mls[OF None, of ps c2] obtain d2 where
      d2: "line_step (ps, c2) l = (ps, d2)" "mlsNumber d2 = mlsNumber c2" by blast
    show ?thesis
      using Cons.IH[of d1 d2] Cons.prems d1 d2 by (simp add: parse_lines_Cons)
  next
    case (Some cap)
    show ?thesis
    proof (cases "trim l = []")
      case True
      then show ?thesis
        using Cons.IH[of c1 c2] Cons.prems by (simp add: parse_lines_Cons line_step_mls[OF Some])
    next
      case False
      then show ?thesis
        using Cons.prems by (simp add: parse_lines_Cons line_step_mls[OF Some] flush_no_mls)
    qed
  qed
qed

lemma foldl_line_step_no_mls:
  assumes "list_all (\<lambda>l. mlsMatch (trim l) = None) ls"
  shows "\<exists>cur'. foldl line_step (ps, cur) ls = (ps, cur') \<and> mlsNumber cur' = mlsNumber cur"
  using assms
proof (induction ls arbitrary: cur)
  case Nil
  then show ?case by simp
next
  case (Cons l ls)
  then have n: "mlsMatch (trim l) = None" and r: "list_all (\<lambda>l. mlsMatch (trim l) = None) ls"
    by simp_all
  from line_step_no_mls[OF n, of ps cur] obtain d where
    d: "line_step (ps, cur) l = (ps, d)" "mlsNumber d = mlsNumber cur" by blast
  from Cons.IH[OF r, of d] d show ?case by simp
qed

lemma parse_lines_append:
  "parse_lines st (xs @ ys) = parse_lines (foldl line_step st xs) ys"
  by (simp add: parse_lines_def)

lemma parse_properties_drop_prefix:
  assumes "list_all (\<lambda>l. mlsMatch (trim l) = None) (split_lines pre)"
  shows "parse_properties (pre @ CHR 0x0A # rest) = parse_properties rest"
proof -
  from foldl_line_step_no_mls[OF assms, of "[]" blank_property] obtain c where
    c: "foldl line_step ([], blank_property) (split_lines pre) = ([], c)"
       "mlsNumber c = mlsNumber blank_property" by blast
  have b: "mlsNumber blank_property = None" by (simp add: blank_property_def)
  have "parse_properties (pre @ CHR 0x0A # rest) = parse_lines ([], c) (split_lines rest)"
    by (simp add: parse_properties_def split_lines_append parse_lines_append c(1))
  also have "\<dots> = parse_lines ([], blank_property) (split_lines rest)"
    using c(2) b by (intro parse_lines_ignores_unnumbered) simp_all
  finally show ?thesis by (simp add: parse_properties_def)
qed

lemma flush_numbered:
  "list_all (\<lambda>p. str_truthy (mlsNumber p)) ps \<Longrightarrow>
   list_all (\<lambda>p. str_truthy (mlsNumber p)) (flush ps cur)"
  by (simp add: flush_def)

lemma line_step_numbered:
  assumes "list_all (\<lambda>p. str_truthy (mlsNumber p)) ps"
  shows "list_all (\<lambda>p. str_truthy (mlsNumber p)) (fst (line_step (ps, cur) l))"
proof (cases "mlsMatch (trim l)")
  case None
  from line_step_no_mls[OF None, of ps cur] assms show ?thesis by auto
next
  case (Some cap)
  show ?thesis using assms flush_numbered[OF assms, of cur]
    by (simp add: line_step_mls[OF Some])
qed

lemma parse_lines_numbered:
  assumes "list_all (\<lambda>p. str_truthy (mlsNumber p)) ps"
  shows "list_all (\<lambda>p. str_truthy (mlsNumber p)) (parse_lines (ps, cur) ls)"
  using assms
proof (induction ls arbitrary: ps cur)
  case Nil
  then show ?case by (simp add: parse_lines_def flush_numbered)
next
  case (Cons l ls)
  obtain ps' cur' where s: "line_step (ps, cur) l = (ps', cur')" by (cases "line_step (ps, cur) l")
  with line_step_numbered[OF Cons.prems, of cur l]
  have "list_all (\<lambda>p. str_truthy (mlsNumber p)) ps'" by simp
  from Cons.IH[OF this, of cur'] s show ?case by (simp add: parse_lines_Cons)
qed

lemma parse_properties_numbered:
  "list_all (\<lambda>p. str_truthy (mlsNumber p)) (parse_properties text)"
  by (simp add: parse_properties_def parse_lines_numbered)

lemma listings_of_extract:
  "activeListings (extractMLSData text)
     = filter (\<lambda>p. \<not> opt_truthy (soldPrice p)) (parse_properties text)"
  "closedListings (extractMLSData text)
     = filter (\<lambda>p. opt_truthy (soldPrice p)) (parse_properties text)"
  by (simp_all add: extractMLSData_def Let_def)

lemma extractMLSData_cong:
  "parse_properties a = parse_properties b \<Longrightarrow> extractMLSData a = extractMLSData b"
  by (simp add: extractMLSData_def)

lemma eval_trim_mls1: "trim ''MLS# 1'' = ''MLS# 1''"
  by code_simp

lemma eval_mls_mls1: "mlsMatch ''MLS# 1'' = Some ''1''"
  by code_simp

lemma eval_strip_1: "filter (\<lambda>c. \<not> is_sep c) ''1'' = ''1''"
  by code_simp

lemma has_keys_numbered: "mlsNumber p \<noteq> None \<Longrightarrow> has_keys p"
proof -
  assume "mlsNumber p \<noteq> None"
  then have "mlsNumber p \<noteq> mlsNumber blank_property"
    by (simp add: blank_property_def)
  then show ?thesis unfolding has_keys_def by metis
qed

lemma soldPrice_fresh: "soldPrice (fresh_property cap) = None"
  by (simp add: fresh_property_def blank_property_def)

lemma mlsNumber_fresh_1: "mlsNumber (fresh_property ''1'') = Some ''1''"
  unfolding fresh_property_def eval_strip_1 by simp

lemma step_mls1: "line_step ([], blank_property) ''MLS# 1'' = ([], fresh_property ''1'')"
  by (simp add: line_step_def eval_trim_mls1 eval_mls_mls1 flush_def has_keys_def)

lemma eval_split_mls1: "split_lines ''MLS# 1'' = [''MLS# 1'']"
  by code_simp

lemma parse_mls1: "parse_properties ''MLS# 1'' = [fresh_property ''1'']"
proof -
  have "flush [] (fresh_property ''1'') = [fresh_property ''1'']"
    by (simp add: flush_def mlsNumber_fresh_1 has_keys_numbered)
  then show ?thesis
    by (simp add: parse_properties_def eval_split_mls1 parse_lines_def step_mls1)
qed

lemma eval_split_9St: "split_lines ''9 St'' = [''9 St'']"
  by code_simp

lemma eval_trim_9St: "trim ''9 St'' = ''9 St''"
  by code_simp

lemma eval_mls_9St: "mlsMatch ''9 St'' = None"
  by code_simp

lemma eval_address_9St: "addressMatch ''9 St'' = Some ''9 St''"
  by code_simp

text \<open>
  C10: the lines before the first line with an MLS number contribute nothing to the
  report (extracting with them and without them gives the same report), since the first
  MLS line replaces the accumulator and an accumulator without a number is never
  flushed; and every listing of a report has a non-empty MLS number.
\<close>

theorem lines_before_first_mls_discarded:
  assumes "list_all (\<lambda>l. mlsMatch (trim l) = None) (split_lines pre)"
  shows "extractMLSData (pre @ CHR 0x0A # rest) = extractMLSData rest
       \<and> list_all (\<lambda>p. str_truthy (mlsNumber p))
            (activeListings (extractMLSData text) @ closedListings (extractMLSData text))"
proof
  show "extractMLSData (pre @ CHR 0x0A # rest) = extractMLSData rest"
    by (rule extractMLSData_cong) (rule parse_properties_drop_prefix[OF assms])
  have "list_all (\<lambda>p. str_truthy (mlsNumber p)) (parse_properties text)"
    by (rule parse_properties_numbered)
  then show "list_all (\<lambda>p. str_truthy (mlsNumber p))
            (activeListings (extractMLSData text) @ closedListings (extractMLSData text))"
    by (auto simp: listings_of_extract list_all_iff)
qed

theorem lines_before_first_mls_discarded_witness:
  "list_all (\<lambda>l. mlsMatch (trim l) = None) (split_lines ''9 St'')
   \<and> addressMatch (trim ''9 St'') = Some ''9 St''
   \<and> extractMLSData (''9 St'' @ CHR 0x0A # ''MLS# 1'') = extractMLSData ''MLS# 1''
   \<and> activeListings (extractMLSData ''MLS# 1'') = [fresh_property ''1'']
   \<and> list_all (\<lambda>p. str_truthy (mlsNumber p))
        (activeListings (extractMLSData ''MLS# 1'') @ closedListings (extractMLSData ''MLS# 1''))"
proof -
  have h: "list_all (\<lambda>l. mlsMatch (trim l) = None) (split_lines ''9 St'')"
    by (simp add: eval_split_9St eval_trim_9St eval_mls_9St)
  from lines_before_first_mls_discarded [OF h, of "''MLS# 1''" "''MLS# 1''"] h show ?thesis
    by (simp add: eval_trim_9St eval_address_9St listings_of_extract parse_mls1
        soldPrice_fresh)
qed

text \<open>
  C6, as amended: a parsed property is in \<^verbatim>\<open>closedListings\<close> exactly when its
  sold price is truthy (present, not zero and not NaN) and in
  \<^verbatim>\<open>activeListings\<close> otherwise, and the two buckets together hold the parsed
  properties with the same multiplicities.
\<close>

theorem listings_partition:
  "(\<forall>p. p \<in> set (closedListings (extractMLSData text))
         \<longleftrightarrow> p \<in> set (parse_properties text) \<and> opt_truthy (soldPrice p))
   \<and> (\<forall>p. p \<in> set (activeListings (extractMLSData text))
         \<longleftrightarrow> p \<in> set (parse_properties text) \<and> \<not> opt_truthy (soldPrice p))
   \<and> mset (activeListings (extractMLSData text) @ closedListings (extractMLSData text))
       = mset (parse_properties text)"
  by (auto simp: listings_of_extract)

lemma eval_split_zero_sold: "split_lines zero_sold_text = [''MLS# 1'', ''Sold: 0'']"
  unfolding zero_sold_text_def by code_simp

lemma eval_trim_sold0: "trim ''Sold: 0'' = ''Sold: 0''"
  by code_simp

lemma eval_mls_sold0: "mlsMatch ''Sold: 0'' = None"
  by code_simp

lemma eval_address_sold0: "addressMatch ''Sold: 0'' = None"
  by code_simp

lemma eval_price_sold0: "priceMatch ''Sold: 0'' = Some ''0''"
  by code_simp

lemma eval_includes_sold0: "str_includes (map lower ''Sold: 0'') ''sold''"
  by code_simp

lemma eval_parseInt_0: "parseInt (filter (\<lambda>c. c \<noteq> CHR '','') ''0'') = Num 0"
  by (simp add: parseInt_def is_space_def is_digit_def digits_value_def)

lemma eval_set_price_sold0:
  "set_price cur ''Sold: 0'' ''0'' = cur \<lparr> soldPrice := Some (Num 0) \<rparr>"
  by (simp only: set_price_def eval_includes_sold0 eval_parseInt_0 Let_def if_True)

lemma parse_zero_sold: "parse_properties zero_sold_text = [zero_sold]"
proof -
  have 2: "line_step ([], fresh_property ''1'') ''Sold: 0'' = ([], zero_sold)"
    by (simp add: line_step_def eval_trim_sold0 eval_mls_sold0 eval_address_sold0
        eval_price_sold0 eval_set_price_sold0 zero_sold_def)
  have m: "mlsNumber zero_sold = Some ''1''"
    by (simp add: zero_sold_def mlsNumber_fresh_1)
  have 3: "flush [] zero_sold = [zero_sold]"
    by (simp add: flush_def m has_keys_numbered)
  show ?thesis
    by (simp add: parse_properties_def eval_split_zero_sold parse_lines_def step_mls1 2 3)
qed

text \<open>
  C6 as stated fails on a sold price of zero: the listing parsed from
  \<^verbatim>\<open>MLS# 1\<close> and \<^verbatim>\<open>Sold: 0\<close> has a sold price, and it is an active
  listing, not a closed one.
\<close>

theorem zero_sold_price_is_active:
  "parse_properties zero_sold_text = [zero_sold]
   \<and> soldPrice zero_sold = Some (Num 0)
   \<and> closedListings (extractMLSData zero_sold_text) = []
   \<and> activeListings (extractMLSData zero_sold_text) = [zero_sold]"
  by (simp add: listings_of_extract parse_zero_sold) (simp add: zero_sold_def)

section \<open>The synthesizer on extracted listings\<close>

lemma eval_split_sold_only: "split_lines sold_only_text = [''MLS# 1'', ''Sold: 400000'']"
  unfolding sold_only_text_def by code_simp

lemma eval_trim_sold: "trim ''Sold: 400000'' = ''Sold: 400000''"
  by code_simp

lemma eval_mls_sold: "mlsMatch ''Sold: 400000'' = None"
  by code_simp

lemma eval_address_sold: "addressMatch ''Sold: 400000'' = None"
  by code_simp

lemma eval_price_sold: "priceMatch ''Sold: 400000'' = Some ''400000''"
  by code_simp

lemma eval_includes_sold: "str_includes (map lower ''Sold: 400000'') ''sold''"
  by code_simp

lemma eval_parseInt_400000: "parseInt (filter (\<lambda>c. c \<noteq> CHR '','') ''400000'') = Num 400000"
  by (simp add: parseInt_def is_space_def is_digit_def digits_value_def)

lemma eval_set_price_sold:
  "set_price cur ''Sold: 400000'' ''400000'' = cur \<lparr> soldPrice := Some (Num 400000) \<rparr>"
  by (simp only: set_price_def eval_includes_sold eval_parseInt_400000 Let_def if_True)

lemma parse_sold_only: "parse_properties sold_only_text = [sold_only]"
proof -
  have 2: "line_step ([], fresh_property ''1'') ''Sold: 400000'' = ([], sold_only)"
    by (simp add: line_step_def eval_trim_sold eval_mls_sold eval_address_sold
        eval_price_sold eval_set_price_sold sold_only_def)
  have m: "mlsNumber sold_only = Some ''1''"
    by (simp add: sold_only_def mlsNumber_fresh_1)
  have 3: "flush [] sold_only = [sold_only]"
    by (simp add: flush_def m has_keys_numbered)
  show ?thesis
    by (simp add: parse_properties_def eval_split_sold_only parse_lines_def step_mls1 2 3)
qed

lemma sold_only_buckets:
  "activeListings (extractMLSData sold_only_text) = []"
  "closedListings (extractMLSData sold_only_text) = [sold_only]"
  by (simp_all add: listings_of_extract parse_sold_only) (simp_all add: sold_only_def)

lemma statistics_of_extract:
  "statistics (extractMLSData text)
     = synthesize (activeListings (extractMLSData text)) (closedListings (extractMLSData text))"
  by (simp add: extractMLSData_def Let_def)

text \<open>
  C5 at a text with one sold listing and no active listing: the extractor's buckets are
  an empty \<^verbatim>\<open>activeListings\<close> and one closed listing, the guard of the
  \<^verbatim>\<open>listToSoldRatio\<close> division holds since a sold price exists, its divisor is
  the average of an empty list, which is \<open>0\<close>, and the ratio is \<open>Infinity\<close>. The guard
  tests the sold prices, not the divisor.
\<close>

theorem list_to_sold_divides_by_zero:
  "parse_properties sold_only_text = [sold_only]
   \<and> activeListings (extractMLSData sold_only_text) = []
   \<and> closedListings (extractMLSData sold_only_text) = [sold_only]
   \<and> truthy (js_len (soldPrices (closedListings (extractMLSData sold_only_text))))
   \<and> listToSoldRatio_divisor (activeListings (extractMLSData sold_only_text)) = Num 0
   \<and> listToSoldRatio (statistics (extractMLSData sold_only_text)) = PosInf"
  unfolding statistics_of_extract sold_only_buckets parse_sold_only
  by (simp add: listToSoldRatio_divisor_def activeListPrices_def calculateAverage_def js_len_def
      synthesize_def soldPrices_def sold_only_def fresh_property_def blank_property_def
      opt_or_def js_sum_def signed_inf_def)

end
